theory Spec2Isabelle
  imports Complex_Main "HOL-Library.Word" "HOL-Library.Multiset"
begin

section \<open>JavaScript numbers\<close>

text \<open>
  A JavaScript number is modelled as an exact real, extended with the three special
  values the code can produce or receive: \<open>Infinity\<close>, \<open>-Infinity\<close> and \<open>NaN\<close>.
  Rounding of finite results is not modelled, and there is one zero (the positive one).
  Every comparison with \<open>NaN\<close> is false; \<open>undefined\<close> converts to \<open>NaN\<close>.
\<close>

datatype jsnum = Fin real | PInf | NInf | NaN

fun js_lt :: "jsnum \<Rightarrow> jsnum \<Rightarrow> bool" where
  "js_lt (Fin a) (Fin b) = (a < b)"
| "js_lt (Fin a) PInf = True"
| "js_lt NInf (Fin b) = True"
| "js_lt NInf PInf = True"
| "js_lt _ _ = False"

definition js_gt :: "jsnum \<Rightarrow> jsnum \<Rightarrow> bool" where
  "js_gt a b = js_lt b a"

fun js_neg :: "jsnum \<Rightarrow> jsnum" where
  "js_neg (Fin a) = Fin (- a)"
| "js_neg PInf = NInf"
| "js_neg NInf = PInf"
| "js_neg NaN = NaN"

fun js_add :: "jsnum \<Rightarrow> jsnum \<Rightarrow> jsnum" where
  "js_add (Fin a) (Fin b) = Fin (a + b)"
| "js_add NaN _ = NaN"
| "js_add _ NaN = NaN"
| "js_add PInf NInf = NaN"
| "js_add NInf PInf = NaN"
| "js_add PInf _ = PInf"
| "js_add _ PInf = PInf"
| "js_add NInf _ = NInf"
| "js_add _ NInf = NInf"

definition js_sub :: "jsnum \<Rightarrow> jsnum \<Rightarrow> jsnum" where
  "js_sub a b = js_add a (js_neg b)"

fun js_mul :: "jsnum \<Rightarrow> jsnum \<Rightarrow> jsnum" where
  "js_mul (Fin a) (Fin b) = Fin (a * b)"
| "js_mul NaN _ = NaN"
| "js_mul _ NaN = NaN"
| "js_mul (Fin a) PInf = (if a = 0 then NaN else if 0 < a then PInf else NInf)"
| "js_mul (Fin a) NInf = (if a = 0 then NaN else if 0 < a then NInf else PInf)"
| "js_mul PInf (Fin b) = (if b = 0 then NaN else if 0 < b then PInf else NInf)"
| "js_mul NInf (Fin b) = (if b = 0 then NaN else if 0 < b then NInf else PInf)"
| "js_mul PInf PInf = PInf"
| "js_mul PInf NInf = NInf"
| "js_mul NInf PInf = NInf"
| "js_mul NInf NInf = PInf"

text \<open>Division; a zero divisor is the positive zero.\<close>

fun js_div :: "jsnum \<Rightarrow> jsnum \<Rightarrow> jsnum" where
  "js_div (Fin a) (Fin b) =
     (if b = 0 then (if a = 0 then NaN else if 0 < a then PInf else NInf) else Fin (a / b))"
| "js_div NaN _ = NaN"
| "js_div _ NaN = NaN"
| "js_div (Fin a) _ = Fin 0"
| "js_div PInf (Fin b) = (if b < 0 then NInf else PInf)"
| "js_div NInf (Fin b) = (if b < 0 then PInf else NInf)"
| "js_div PInf PInf = NaN"
| "js_div PInf NInf = NaN"
| "js_div NInf PInf = NaN"
| "js_div NInf NInf = NaN"

text \<open>\<open>Math.floor\<close>, \<open>Math.max\<close>, \<open>Math.min\<close>, \<open>Math.abs\<close>.\<close>

fun js_floor :: "jsnum \<Rightarrow> jsnum" where
  "js_floor (Fin a) = Fin (of_int \<lfloor>a\<rfloor>)"
| "js_floor x = x"

fun js_max :: "jsnum \<Rightarrow> jsnum \<Rightarrow> jsnum" where
  "js_max (Fin a) (Fin b) = Fin (max a b)"
| "js_max NaN _ = NaN"
| "js_max _ NaN = NaN"
| "js_max PInf _ = PInf"
| "js_max _ PInf = PInf"
| "js_max NInf x = x"
| "js_max x NInf = x"

fun js_min :: "jsnum \<Rightarrow> jsnum \<Rightarrow> jsnum" where
  "js_min (Fin a) (Fin b) = Fin (min a b)"
| "js_min NaN _ = NaN"
| "js_min _ NaN = NaN"
| "js_min NInf _ = NInf"
| "js_min _ NInf = NInf"
| "js_min PInf x = x"
| "js_min x PInf = x"

fun js_abs :: "jsnum \<Rightarrow> jsnum" where
  "js_abs (Fin a) = Fin \<bar>a\<bar>"
| "js_abs PInf = PInf"
| "js_abs NInf = PInf"
| "js_abs NaN = NaN"

section \<open>Adaptive threshold (preprocessing.js)\<close>

type_synonym byte = "8 word"

text \<open>
  Reading a typed array: an index inside the array gives the byte, an index past the end
  gives \<open>undefined\<close>, which the arithmetic and the comparison of
  \<open>adaptiveThresholdJS\<close> convert to \<open>NaN\<close>.
\<close>

definition rd :: "byte list \<Rightarrow> nat \<Rightarrow> jsnum" where
  "rd a i = (if i < length a then Fin (real (unat (a ! i))) else NaN)"

text \<open>
  \<^verbatim>\<open>const threshold = blurred[i] - offset;\<close>
  \<^verbatim>\<open>const above = input[i] > threshold;\<close>
\<close>

definition above_px :: "byte list \<Rightarrow> byte list \<Rightarrow> jsnum \<Rightarrow> nat \<Rightarrow> bool" where
  "above_px input blurred offset i = js_gt (rd input i) (js_sub (rd blurred i) offset)"

text \<open>
  \<^verbatim>\<open>output[i] = (above !== invert) ? 255 : 0;\<close> for \<open>i\<close> from 0 to
  \<open>width * height - 1\<close>.
\<close>

definition adaptiveThresholdJS ::
  "byte list \<Rightarrow> byte list \<Rightarrow> nat \<Rightarrow> nat \<Rightarrow> jsnum \<Rightarrow> bool \<Rightarrow> byte list" where
  "adaptiveThresholdJS input blurred width height offset invert =
     map (\<lambda>i. if above_px input blurred offset i \<noteq> invert then 255 else 0)
       [0 ..< width * height]"

section \<open>CLAHE: tiles, histogram and clipping (preprocessing.js, claheJS)\<close>

text \<open>
  The tile grid has \<open>tileGridX * tileGridY\<close> tiles; tile \<open>(tx, ty)\<close> exists for
  \<open>tx < tileGridX\<close> and \<open>ty < tileGridY\<close>, so wherever a tile exists both grid counts
  are at least 1 and \<open>Math.floor(width / tileGridX)\<close> is \<open>width div tileGridX\<close>.
\<close>

definition tileWidth :: "nat \<Rightarrow> nat \<Rightarrow> nat" where
  "tileWidth width tileGridX = width div tileGridX"

definition tileHeight :: "nat \<Rightarrow> nat \<Rightarrow> nat" where
  "tileHeight height tileGridY = height div tileGridY"

text \<open>\<^verbatim>\<open>const tilePixels = tileWidth * tileHeight;\<close>\<close>

definition tilePixels :: "nat \<Rightarrow> nat \<Rightarrow> nat \<Rightarrow> nat \<Rightarrow> nat" where
  "tilePixels width height tileGridX tileGridY =
     tileWidth width tileGridX * tileHeight height tileGridY"

text \<open>
  \<^verbatim>\<open>const actualClip = clipLimit > 0\<close>
  \<^verbatim>\<open>  ? Math.max(1, Math.floor((clipLimit * tilePixels) / 256)) : Infinity;\<close>
  It is computed once, before the loop over the tiles.
\<close>

definition actualClip :: "jsnum \<Rightarrow> nat \<Rightarrow> jsnum" where
  "actualClip clipLimit tp =
     (if js_gt clipLimit (Fin 0)
      then js_max (Fin 1) (js_floor (js_div (js_mul clipLimit (Fin (real tp))) (Fin 256)))
      else PInf)"

text \<open>The bounds of tile \<open>(tx, ty)\<close>; the last column and row reach the image border.\<close>

definition xStart :: "nat \<Rightarrow> nat \<Rightarrow> nat \<Rightarrow> nat" where
  "xStart width tileGridX tx = tx * tileWidth width tileGridX"

definition xEnd :: "nat \<Rightarrow> nat \<Rightarrow> nat \<Rightarrow> nat" where
  "xEnd width tileGridX tx =
     (if tx = tileGridX - 1 then width else xStart width tileGridX tx + tileWidth width tileGridX)"

definition yStart :: "nat \<Rightarrow> nat \<Rightarrow> nat \<Rightarrow> nat" where
  "yStart height tileGridY ty = ty * tileHeight height tileGridY"

definition yEnd :: "nat \<Rightarrow> nat \<Rightarrow> nat \<Rightarrow> nat" where
  "yEnd height tileGridY ty =
     (if ty = tileGridY - 1 then height
      else yStart height tileGridY ty + tileHeight height tileGridY)"

text \<open>\<^verbatim>\<open>const actualTilePixels = (yEnd - yStart) * (xEnd - xStart);\<close>\<close>

definition actualTilePixels :: "nat \<Rightarrow> nat \<Rightarrow> nat \<Rightarrow> nat \<Rightarrow> nat \<Rightarrow> nat \<Rightarrow> nat" where
  "actualTilePixels width height tileGridX tileGridY tx ty =
     (yEnd height tileGridY ty - yStart height tileGridY ty) *
     (xEnd width tileGridX tx - xStart width tileGridX tx)"

text \<open>
  The bytes of a tile, row by row. A read past the end of \<open>input\<close> is \<open>undefined\<close>
  and \<open>hist[undefined]++\<close> changes no bin.
\<close>

definition tileValues :: "byte list \<Rightarrow> nat \<Rightarrow> nat \<Rightarrow> nat \<Rightarrow> nat \<Rightarrow> nat \<Rightarrow> byte list" where
  "tileValues input width ys ye xs xe =
     concat (map (\<lambda>y. concat (map (\<lambda>x. if y * width + x < length input
                                            then [input ! (y * width + x)] else [])
                                 [xs ..< xe]))
               [ys ..< ye])"

text \<open>The 256 bins; a count stays below \<open>2 ^ 32\<close> for every image that fits in memory.\<close>

definition histogram :: "byte list \<Rightarrow> nat list" where
  "histogram vals = map (\<lambda>b. length (filter (\<lambda>v. unat v = b) vals)) [0 ..< 256]"

text \<open>
  Clip and redistribute, under \<^verbatim>\<open>if (actualClip < Infinity)\<close>. A finite
  \<open>actualClip\<close> is a whole number of at least 1, by \<open>Math.max(1, Math.floor(...))\<close>.
\<close>

definition clipBin :: "nat \<Rightarrow> nat \<Rightarrow> nat" where
  "clipBin c h = (if c < h then c else h)"

definition excessOf :: "nat \<Rightarrow> nat list \<Rightarrow> nat" where
  "excessOf c hist = sum_list (map (\<lambda>h. if c < h then h - c else 0) hist)"

definition redistribute :: "nat \<Rightarrow> nat list \<Rightarrow> nat list" where
  "redistribute excess hist =
     map (\<lambda>i. hist ! i + excess div 256 + (if i < excess mod 256 then 1 else 0))
       [0 ..< length hist]"

definition clipHistogram :: "jsnum \<Rightarrow> nat list \<Rightarrow> nat list" where
  "clipHistogram ac hist =
     (if js_lt ac PInf
      then (case ac of
              Fin c \<Rightarrow> redistribute (excessOf (nat \<lfloor>c\<rfloor>) hist) (map (clipBin (nat \<lfloor>c\<rfloor>)) hist)
            | _ \<Rightarrow> hist)
      else hist)"

text \<open>The histogram of tile \<open>(tx, ty)\<close> after the clipping step of \<open>claheJS\<close>.\<close>

definition claheTileHistogram ::
  "byte list \<Rightarrow> nat \<Rightarrow> nat \<Rightarrow> nat \<Rightarrow> nat \<Rightarrow> jsnum \<Rightarrow> nat \<Rightarrow> nat \<Rightarrow> nat list" where
  "claheTileHistogram input width height tileGridX tileGridY clipLimit tx ty =
     clipHistogram (actualClip clipLimit (tilePixels width height tileGridX tileGridY))
       (histogram (tileValues input width
          (yStart height tileGridY ty) (yEnd height tileGridY ty)
          (xStart width tileGridX tx) (xEnd width tileGridX tx)))"

text \<open>The clip count of the spec: \<open>max(1, floor(L * n / 256))\<close> for a tile of \<open>n\<close> pixels.\<close>

definition specClipCount :: "real \<Rightarrow> nat \<Rightarrow> real" where
  "specClipCount L n = max 1 (of_int \<lfloor>L * real n / 256\<rfloor>)"

section \<open>Geometry of a polygon (contourFilter.js)\<close>

text \<open>A point \<open>{x, y}\<close>; the coordinates of a traced or approximated contour are finite.\<close>

record point =
  xc :: real
  yc :: real

text \<open>\<open>Math.acos\<close>: \<open>NaN\<close> outside \<open>[-1, 1]\<close>.\<close>

fun js_acos :: "jsnum \<Rightarrow> jsnum" where
  "js_acos (Fin a) = (if - 1 \<le> a \<and> a \<le> 1 then Fin (arccos a) else NaN)"
| "js_acos _ = NaN"

text \<open>
  \<open>contourArea\<close>: the shoelace formula, \<open>0\<close> for fewer than three points.
\<close>

definition shoelaceTerm :: "point list \<Rightarrow> nat \<Rightarrow> real" where
  "shoelaceTerm ps i =
     (let j = (i + 1) mod length ps
      in xc (ps ! i) * yc (ps ! j) - xc (ps ! j) * yc (ps ! i))"

definition contourArea :: "point list \<Rightarrow> real" where
  "contourArea ps =
     (if length ps < 3 then 0
      else \<bar>sum_list (map (shoelaceTerm ps) [0 ..< length ps])\<bar> / 2)"

text \<open>
  \<open>isConvex\<close>: the cross product of the edges at \<open>i\<close>, and the loop that keeps the
  sign of the first non-zero cross product and returns \<open>false\<close> at the first one of the
  other sign.
\<close>

definition crossAt :: "point list \<Rightarrow> nat \<Rightarrow> real" where
  "crossAt ps i =
     (let n = length ps;
          p0 = ps ! i; p1 = ps ! ((i + 1) mod n); p2 = ps ! ((i + 2) mod n);
          dx1 = xc p1 - xc p0; dy1 = yc p1 - yc p0;
          dx2 = xc p2 - xc p1; dy2 = yc p2 - yc p1
      in dx1 * dy2 - dy1 * dx2)"

fun isConvexLoop :: "point list \<Rightarrow> int \<Rightarrow> nat list \<Rightarrow> bool" where
  "isConvexLoop ps sign [] = True"
| "isConvexLoop ps sign (i # rest) =
     (let cross = crossAt ps i
      in if cross \<noteq> 0
         then (if sign = 0 then isConvexLoop ps (if 0 < cross then 1 else - 1) rest
               else if (if 0 < cross then 1 else - 1) \<noteq> sign then False
               else isConvexLoop ps sign rest)
         else isConvexLoop ps sign rest)"

definition isConvex :: "point list \<Rightarrow> bool" where
  "isConvex ps = (if length ps < 3 then False else isConvexLoop ps 0 [0 ..< length ps])"

text \<open>\<^verbatim>\<open>Math.sqrt(vx * vx + vy * vy)\<close>, the length of a vector.\<close>

definition magnitude :: "real \<Rightarrow> real \<Rightarrow> real" where
  "magnitude vx vy = sqrt (vx * vx + vy * vy)"

text \<open>
  \<open>angleBetween\<close>: the angle at \<open>p1\<close> in degrees; \<open>0\<close> when an incident edge has
  length zero. The division is written with \<open>js_div\<close>, which gives \<open>Infinity\<close>,
  \<open>-Infinity\<close> or \<open>NaN\<close> for a zero divisor.
\<close>

definition angleBetween :: "point \<Rightarrow> point \<Rightarrow> point \<Rightarrow> jsnum" where
  "angleBetween p0 p1 p2 =
     (let v1x = xc p0 - xc p1; v1y = yc p0 - yc p1;
          v2x = xc p2 - xc p1; v2y = yc p2 - yc p1;
          dot = v1x * v2x + v1y * v2y;
          mag1 = magnitude v1x v1y;
          mag2 = magnitude v2x v2y
      in if mag1 = 0 \<or> mag2 = 0 then Fin 0
         else (let cosAngle =
                     js_max (Fin (- 1)) (js_min (Fin 1) (js_div (Fin dot) (Fin (mag1 * mag2))))
               in js_mul (js_acos cosAngle) (js_div (Fin 180) (Fin pi))))"

text \<open>The angle at vertex \<open>i\<close>, between its neighbours \<open>(i + n - 1) % n\<close> and \<open>(i + 1) % n\<close>.\<close>

definition angleAt :: "point list \<Rightarrow> nat \<Rightarrow> jsnum" where
  "angleAt ps i =
     (let n = length ps
      in angleBetween (ps ! ((i + n - 1) mod n)) (ps ! i) (ps ! ((i + 1) mod n)))"

text \<open>
  \<open>hasReasonableAngles\<close>: \<open>false\<close> at the first vertex with
  \<^verbatim>\<open>angle < minAngle || angle > maxAngle\<close>.
\<close>

definition angleOutside :: "jsnum \<Rightarrow> jsnum \<Rightarrow> jsnum \<Rightarrow> bool" where
  "angleOutside minA maxA a = (js_lt a minA \<or> js_gt a maxA)"

definition hasReasonableAngles :: "point list \<Rightarrow> jsnum \<Rightarrow> jsnum \<Rightarrow> bool" where
  "hasReasonableAngles ps minA maxA =
     (if length ps < 3 then False
      else list_all (\<lambda>i. \<not> angleOutside minA maxA (angleAt ps i)) [0 ..< length ps])"

text \<open>\<open>computeAngleScore\<close>: 1 minus the mean deviation from 90 degrees over 30, in [0, 1].\<close>

definition totalDeviation :: "point list \<Rightarrow> jsnum" where
  "totalDeviation ps =
     foldl (\<lambda>acc i. js_add acc (js_abs (js_sub (angleAt ps i) (Fin 90)))) (Fin 0)
       [0 ..< length ps]"

definition computeAngleScore :: "point list \<Rightarrow> jsnum" where
  "computeAngleScore ps =
     (if length ps < 3 then Fin 0
      else (let avgDeviation = js_div (totalDeviation ps) (Fin (real (length ps)))
            in js_max (Fin 0)
                 (js_min (Fin 1) (js_sub (Fin 1) (js_div avgDeviation (Fin 30))))))"

text \<open>
  \<open>quadAspectRatio\<close>: mean of edges 0 and 2 over mean of edges 1 and 3; \<open>1\<close> unless
  there are four points; \<open>Infinity\<close> when the height is zero.
\<close>

definition edgeLength :: "point list \<Rightarrow> nat \<Rightarrow> real" where
  "edgeLength ps i =
     (let j = (i + 1) mod 4;
          dx = xc (ps ! j) - xc (ps ! i);
          dy = yc (ps ! j) - yc (ps ! i)
      in magnitude dx dy)"

definition quadWidth :: "point list \<Rightarrow> real" where
  "quadWidth ps = (edgeLength ps 0 + edgeLength ps 2) / 2"

definition quadHeight :: "point list \<Rightarrow> real" where
  "quadHeight ps = (edgeLength ps 1 + edgeLength ps 3) / 2"

definition quadAspectRatio :: "point list \<Rightarrow> jsnum" where
  "quadAspectRatio ps =
     (if length ps \<noteq> 4 then Fin 1
      else if quadHeight ps = 0 then PInf
      else js_div (Fin (quadWidth ps)) (Fin (quadHeight ps)))"

section \<open>The contour filter (contourFilter.js, findDocumentContour)\<close>

text \<open>
  A contour of the tracer: its points and its pixel area. The options object of
  \<open>findDocumentContour\<close>: a field that is \<open>undefined\<close> is \<open>None\<close> and takes the default
  of the destructuring pattern.
\<close>

record contour =
  points :: "point list"
  area :: real

record filterOptions =
  minAreaRatio :: "jsnum option"
  maxAreaRatio :: "jsnum option"
  minAngle :: "jsnum option"
  maxAngle :: "jsnum option"
  epsilon :: "jsnum option"
  areaWeight :: "jsnum option"
  angleWeight :: "jsnum option"
  minAspectRatio :: "jsnum option"
  maxAspectRatio :: "jsnum option"
  epsilonValues :: "jsnum list option"

record candidate =
  candContour :: contour
  approx :: "point list"
  candArea :: real
  candPoints :: "point list"
  candEpsilon :: jsnum
  angleScore :: jsnum
  score :: jsnum

definition dflt :: "'a \<Rightarrow> 'a option \<Rightarrow> 'a" where
  "dflt d v = (case v of None \<Rightarrow> d | Some x \<Rightarrow> x)"

text \<open>The defaults of \<open>findDocumentContour\<close> itself.\<close>

definition optMinAreaRatio :: "filterOptions \<Rightarrow> jsnum" where
  "optMinAreaRatio opts = dflt (Fin 0.15) (minAreaRatio opts)"

definition optMaxAreaRatio :: "filterOptions \<Rightarrow> jsnum" where
  "optMaxAreaRatio opts = dflt (Fin 0.98) (maxAreaRatio opts)"

definition optMinAngle :: "filterOptions \<Rightarrow> jsnum" where
  "optMinAngle opts = dflt (Fin 60) (minAngle opts)"

definition optMaxAngle :: "filterOptions \<Rightarrow> jsnum" where
  "optMaxAngle opts = dflt (Fin 120) (maxAngle opts)"

definition optEpsilon :: "filterOptions \<Rightarrow> jsnum" where
  "optEpsilon opts = dflt (Fin 0.02) (epsilon opts)"

definition optAreaWeight :: "filterOptions \<Rightarrow> jsnum" where
  "optAreaWeight opts = dflt (Fin 0.4) (areaWeight opts)"

definition optAngleWeight :: "filterOptions \<Rightarrow> jsnum" where
  "optAngleWeight opts = dflt (Fin 0.6) (angleWeight opts)"

definition optMinAspectRatio :: "filterOptions \<Rightarrow> jsnum" where
  "optMinAspectRatio opts = dflt (Fin 0.3) (minAspectRatio opts)"

definition optMaxAspectRatio :: "filterOptions \<Rightarrow> jsnum" where
  "optMaxAspectRatio opts = dflt (Fin 3.0) (maxAspectRatio opts)"

text \<open>
  \<^verbatim>\<open>const epsilons = epsilonValues || [epsilon * 0.5, epsilon * 0.75, epsilon,\<close>
  \<^verbatim>\<open>  epsilon * 1.5, epsilon * 2.0];\<close> (an array, also an empty one, is truthy).
\<close>

definition epsilons :: "filterOptions \<Rightarrow> jsnum list" where
  "epsilons opts =
     (case epsilonValues opts of
        Some es \<Rightarrow> es
      | None \<Rightarrow> (let e = optEpsilon opts
                 in [js_mul e (Fin 0.5), js_mul e (Fin 0.75), e,
                     js_mul e (Fin 1.5), js_mul e (Fin 2.0)]))"

definition imageArea :: "nat \<Rightarrow> nat \<Rightarrow> real" where
  "imageArea imageWidth imageHeight = real (imageWidth * imageHeight)"

text \<open>
  \<^verbatim>\<open>const score = areaWeight * normalizedArea + angleWeight * angleScore;\<close> with
  \<^verbatim>\<open>normalizedArea = area / imageArea\<close>. The division, the products and the sum are
  those of the number model above, exact on finite numbers; the code rounds each of
  them to a double, so its score can differ from this one in the last digits.
\<close>

definition compositeScore :: "filterOptions \<Rightarrow> real \<Rightarrow> real \<Rightarrow> jsnum \<Rightarrow> jsnum" where
  "compositeScore opts imgArea a ascore =
     js_add (js_mul (optAreaWeight opts) (js_div (Fin a) (Fin imgArea)))
            (js_mul (optAngleWeight opts) ascore)"

text \<open>
  One pass of the body of the epsilon loop: \<open>None\<close> where the source says
  \<open>continue\<close>, the candidate it pushes otherwise. \<open>approximatePolygon\<close> is the external
  polygon approximation (\<open>None\<close> for a falsy result).
\<close>

definition candidateAt ::
  "(point list \<Rightarrow> jsnum \<Rightarrow> point list option) \<Rightarrow> nat \<Rightarrow> nat \<Rightarrow> filterOptions \<Rightarrow>
   contour \<Rightarrow> jsnum \<Rightarrow> candidate option" where
  "candidateAt approximatePolygon imageWidth imageHeight opts c e =
     (case approximatePolygon (points c) e of
        None \<Rightarrow> None
      | Some ap \<Rightarrow>
          if length ap \<noteq> 4 then None
          else (let ar = contourArea ap;
                    ia = imageArea imageWidth imageHeight
                in if js_lt (Fin ar) (js_mul (Fin ia) (optMinAreaRatio opts)) \<or>
                      js_gt (Fin ar) (js_mul (Fin ia) (optMaxAreaRatio opts)) then None
                   else if \<not> isConvex ap then None
                   else if \<not> hasReasonableAngles ap (optMinAngle opts) (optMaxAngle opts)
                        then None
                   else if js_lt (quadAspectRatio ap) (optMinAspectRatio opts) \<or>
                           js_gt (quadAspectRatio ap) (optMaxAspectRatio opts) then None
                   else Some \<lparr>candContour = c, approx = ap, candArea = ar,
                               candPoints = points c, candEpsilon = e,
                               angleScore = computeAngleScore ap,
                               score = compositeScore opts ia ar (computeAngleScore ap)\<rparr>))"

text \<open>
  The epsilon loop for one contour. It returns the candidates pushed and the epsilons
  handed to \<open>approximatePolygon\<close>, in order; after a candidate with
  \<^verbatim>\<open>score > 0.5\<close> the loop breaks.
\<close>

fun tryEpsilons ::
  "(point list \<Rightarrow> jsnum \<Rightarrow> point list option) \<Rightarrow> nat \<Rightarrow> nat \<Rightarrow> filterOptions \<Rightarrow>
   contour \<Rightarrow> jsnum list \<Rightarrow> candidate list \<times> jsnum list" where
  "tryEpsilons approximatePolygon imageWidth imageHeight opts c [] = ([], [])"
| "tryEpsilons approximatePolygon imageWidth imageHeight opts c (e # rest) =
     (case candidateAt approximatePolygon imageWidth imageHeight opts c e of
        None \<Rightarrow>
          (let r = tryEpsilons approximatePolygon imageWidth imageHeight opts c rest
           in (fst r, e # snd r))
      | Some cand \<Rightarrow>
          if js_gt (score cand) (Fin 0.5) then ([cand], [e])
          else (let r = tryEpsilons approximatePolygon imageWidth imageHeight opts c rest
                in (cand # fst r, e # snd r)))"

text \<open>The loop over the contours; a contour with fewer than four points is skipped.\<close>

definition contourCandidates ::
  "(point list \<Rightarrow> jsnum \<Rightarrow> point list option) \<Rightarrow> nat \<Rightarrow> nat \<Rightarrow> filterOptions \<Rightarrow>
   contour \<Rightarrow> candidate list" where
  "contourCandidates approximatePolygon imageWidth imageHeight opts c =
     (if length (points c) < 4 then []
      else fst (tryEpsilons approximatePolygon imageWidth imageHeight opts c (epsilons opts)))"

definition collectCandidates ::
  "(point list \<Rightarrow> jsnum \<Rightarrow> point list option) \<Rightarrow> nat \<Rightarrow> nat \<Rightarrow> filterOptions \<Rightarrow>
   contour list \<Rightarrow> candidate list" where
  "collectCandidates approximatePolygon imageWidth imageHeight opts contours =
     concat (map (contourCandidates approximatePolygon imageWidth imageHeight opts) contours)"

text \<open>
  \<^verbatim>\<open>sort((a, b) => b.score - a.score)\<close>: \<open>a\<close> goes after \<open>b\<close> when the comparator is
  positive; a \<open>NaN\<close> comparator counts as 0. The sort is stable; it is modelled as an
  insertion sort. (With a \<open>NaN\<close> score the comparator is not a consistent order and the
  language leaves the result to the implementation.)
\<close>

definition sortsAfter :: "('a \<Rightarrow> jsnum) \<Rightarrow> 'a \<Rightarrow> 'a \<Rightarrow> bool" where
  "sortsAfter sc a b = js_gt (js_sub (sc b) (sc a)) (Fin 0)"

fun insertByScore :: "('a \<Rightarrow> jsnum) \<Rightarrow> 'a \<Rightarrow> 'a list \<Rightarrow> 'a list" where
  "insertByScore sc a [] = [a]"
| "insertByScore sc a (b # bs) =
     (if sortsAfter sc a b then b # insertByScore sc a bs else a # b # bs)"

definition sortByScore :: "('a \<Rightarrow> jsnum) \<Rightarrow> 'a list \<Rightarrow> 'a list" where
  "sortByScore sc xs = foldr (insertByScore sc) xs []"


text \<open>\<^verbatim>\<open>return candidates.length > 0 ? candidates[0] : null;\<close>\<close>

definition firstOrNull :: "'a list \<Rightarrow> 'a option" where
  "firstOrNull xs = (case xs of [] \<Rightarrow> None | x # _ \<Rightarrow> Some x)"

definition findDocumentContour ::
  "(point list \<Rightarrow> jsnum \<Rightarrow> point list option) \<Rightarrow> contour list \<Rightarrow> nat \<Rightarrow> nat \<Rightarrow>
   filterOptions \<Rightarrow> candidate option" where
  "findDocumentContour approximatePolygon contours imageWidth imageHeight opts =
     firstOrNull (sortByScore score
       (collectCandidates approximatePolygon imageWidth imageHeight opts contours))"

section \<open>The driver (index.js, detectDocumentInternal)\<close>

text \<open>
  The scan options the driver reads for the filter and the strategies. The options it
  only hands on to the preprocessing kernels and the tracer (\<open>clahe\<close>, \<open>threshold\<close>,
  \<open>morphology\<close>, \<open>minArea\<close>, the dilation settings) are part of the external
  operations below.
\<close>

record contourFilterOptions =
  cfMinAreaRatio :: "jsnum option"
  cfMaxAreaRatio :: "jsnum option"
  angleRange :: "jsnum list option"
  cfAreaWeight :: "jsnum option"
  cfAngleWeight :: "jsnum option"
  cfMinAspectRatio :: "jsnum option"
  cfMaxAspectRatio :: "jsnum option"
  cfEpsilonValues :: "jsnum list option"

record scanOptions =
  contourFilter :: "contourFilterOptions option"
  scanEpsilon :: "jsnum option"
  useFallback :: "bool option"
  fallbackLowThreshold :: "jsnum option"
  fallbackHighThreshold :: "jsnum option"
  lowThreshold :: "jsnum option"
  highThreshold :: "jsnum option"

text \<open>\<^verbatim>\<open>x || d\<close> on a number that may be \<open>undefined\<close>: 0, \<open>NaN\<close> and \<open>undefined\<close> are falsy.\<close>

fun js_or :: "jsnum option \<Rightarrow> jsnum \<Rightarrow> jsnum" where
  "js_or None d = d"
| "js_or (Some (Fin a)) d = (if a = 0 then d else Fin a)"
| "js_or (Some NaN) d = d"
| "js_or (Some PInf) d = PInf"
| "js_or (Some NInf) d = NInf"

text \<open>\<^verbatim>\<open>options.contourFilter?.field\<close> and \<^verbatim>\<open>array?.[i]\<close>.\<close>

definition cfField ::
  "scanOptions \<Rightarrow> (contourFilterOptions \<Rightarrow> 'a option) \<Rightarrow> 'a option" where
  "cfField options f = (case contourFilter options of None \<Rightarrow> None | Some cf \<Rightarrow> f cf)"

definition elemAt :: "'a list option \<Rightarrow> nat \<Rightarrow> 'a option" where
  "elemAt arr i =
     (case arr of None \<Rightarrow> None | Some xs \<Rightarrow> if i < length xs then Some (xs ! i) else None)"

text \<open>The shared \<open>filterOptions\<close> object the driver gives to every call of the filter.\<close>

definition filterOptionsOf :: "scanOptions \<Rightarrow> filterOptions" where
  "filterOptionsOf options =
     \<lparr>minAreaRatio = Some (js_or (cfField options cfMinAreaRatio) (Fin 0.15)),
      maxAreaRatio = Some (js_or (cfField options cfMaxAreaRatio) (Fin 0.98)),
      minAngle = Some (js_or (elemAt (cfField options angleRange) 0) (Fin 70)),
      maxAngle = Some (js_or (elemAt (cfField options angleRange) 1) (Fin 110)),
      epsilon = Some (js_or (scanEpsilon options) (Fin 0.02)),
      areaWeight = Some (js_or (cfField options cfAreaWeight) (Fin 0.4)),
      angleWeight = Some (js_or (cfField options cfAngleWeight) (Fin 0.6)),
      minAspectRatio = Some (js_or (cfField options cfMinAspectRatio) (Fin 0.3)),
      maxAspectRatio = Some (js_or (cfField options cfMaxAspectRatio) (Fin 3.0)),
      epsilonValues = cfField options cfEpsilonValues\<rparr>"

text \<open>
  The external operations of one scan. \<open>enhanced width height\<close> is the preprocessing of
  the Enhanced strategy followed by contour tracing: either of them may throw inside the
  driver's \<open>try\<close>. \<open>canny width height low high\<close> is the external edge detector followed
  by contour tracing. \<open>findCornerPoints\<close> is the external corner detector (\<open>None\<close> for
  \<open>null\<close>). Outside the \<open>try\<close> of the Enhanced strategy the external operations are
  taken to return; an exception of theirs there would leave the driver and is not part
  of the model.
\<close>

datatype enhancedOutcome = PreprocessingThrew | TracingThrew | Traced "contour list"

record corners =
  topLeft :: point
  topRight :: point
  bottomRight :: point
  bottomLeft :: point

record env =
  enhanced :: "nat \<Rightarrow> nat \<Rightarrow> enhancedOutcome"
  canny :: "nat \<Rightarrow> nat \<Rightarrow> jsnum \<Rightarrow> jsnum \<Rightarrow> contour list"
  approximatePolygon :: "point list \<Rightarrow> jsnum \<Rightarrow> point list option"
  findCornerPoints :: "contour \<Rightarrow> corners option"

text \<open>
  What one strategy leaves behind: the candidates it adds to \<open>allCandidates\<close> with the
  strategy's name, its first raw contour (for \<open>fallbackContour\<close>) and the steps it pushes
  to \<open>timings\<close> (the names of the steps; the milliseconds, and the entries the edge
  detector adds in debug mode, are left out).
\<close>

record strategyRun =
  pooled :: "(candidate \<times> string) list"
  firstRaw :: "contour option"
  steps :: "string list"

definition filteredAs ::
  "env \<Rightarrow> nat \<Rightarrow> nat \<Rightarrow> filterOptions \<Rightarrow> string \<Rightarrow> contour list \<Rightarrow>
   (candidate \<times> string) list" where
  "filteredAs e width height fo name cs =
     (case findDocumentContour (approximatePolygon e) cs width height fo of
        None \<Rightarrow> []
      | Some f \<Rightarrow> [(f, name)])"

definition strategyEnhanced :: "env \<Rightarrow> nat \<Rightarrow> nat \<Rightarrow> filterOptions \<Rightarrow> strategyRun" where
  "strategyEnhanced e width height fo =
     (case enhanced e width height of
        PreprocessingThrew \<Rightarrow>
          \<lparr>pooled = [], firstRaw = None, steps = [''Enhanced Pipeline (failed)'']\<rparr>
      | TracingThrew \<Rightarrow>
          \<lparr>pooled = [], firstRaw = None,
           steps = [''CLAHE + Adaptive Threshold'', ''Enhanced Pipeline (failed)'']\<rparr>
      | Traced cs \<Rightarrow>
          if cs \<noteq> []
          then \<lparr>pooled = filteredAs e width height fo ''enhanced'' cs, firstRaw = None,
                steps = [''CLAHE + Adaptive Threshold'', ''Find Contours (Enhanced)'',
                         ''Contour Filter (Enhanced)'']\<rparr>
          else \<lparr>pooled = [], firstRaw = None,
                steps = [''CLAHE + Adaptive Threshold'', ''Find Contours (Enhanced)'']\<rparr>)"

definition cannyFallbackContours :: "env \<Rightarrow> nat \<Rightarrow> nat \<Rightarrow> scanOptions \<Rightarrow> contour list" where
  "cannyFallbackContours e width height options =
     canny e width height (js_or (fallbackLowThreshold options) (Fin 30))
       (js_or (fallbackHighThreshold options) (Fin 90))"

definition cannyDefaultContours :: "env \<Rightarrow> nat \<Rightarrow> nat \<Rightarrow> scanOptions \<Rightarrow> contour list" where
  "cannyDefaultContours e width height options =
     canny e width height (js_or (lowThreshold options) (Fin 75))
       (js_or (highThreshold options) (Fin 200))"

definition strategyCanny ::
  "env \<Rightarrow> nat \<Rightarrow> nat \<Rightarrow> filterOptions \<Rightarrow> string \<Rightarrow> string \<Rightarrow> contour list \<Rightarrow>
   strategyRun" where
  "strategyCanny e width height fo name step cs =
     (if cs \<noteq> []
      then \<lparr>pooled = filteredAs e width height fo name cs, firstRaw = Some (hd cs),
            steps = [step]\<rparr>
      else \<lparr>pooled = [], firstRaw = None, steps = [step]\<rparr>)"

definition strategyCannyFallback ::
  "env \<Rightarrow> nat \<Rightarrow> nat \<Rightarrow> filterOptions \<Rightarrow> scanOptions \<Rightarrow> strategyRun" where
  "strategyCannyFallback e width height fo options =
     strategyCanny e width height fo ''canny-fallback'' ''Find Contours (Canny Fallback)''
       (cannyFallbackContours e width height options)"

definition strategyCannyDefault ::
  "env \<Rightarrow> nat \<Rightarrow> nat \<Rightarrow> filterOptions \<Rightarrow> scanOptions \<Rightarrow> strategyRun" where
  "strategyCannyDefault e width height fo options =
     strategyCanny e width height fo ''canny-default'' ''Find Contours (Default Canny)''
       (cannyDefaultContours e width height options)"

text \<open>
  \<^verbatim>\<open>const useFallback = options.useFallback !== undefined ? options.useFallback : true;\<close>
\<close>

definition useFallbackOf :: "scanOptions \<Rightarrow> bool" where
  "useFallbackOf options = dflt True (useFallback options)"

text \<open>The strategies in the order the driver runs them.\<close>

definition strategyRuns :: "env \<Rightarrow> nat \<Rightarrow> nat \<Rightarrow> scanOptions \<Rightarrow> strategyRun list" where
  "strategyRuns e width height options =
     (let fo = filterOptionsOf options
      in strategyEnhanced e width height fo #
         (if useFallbackOf options
          then [strategyCannyFallback e width height fo options,
                strategyCannyDefault e width height fo options]
          else []))"

definition allCandidates :: "strategyRun list \<Rightarrow> (candidate \<times> string) list" where
  "allCandidates runs = concat (map pooled runs)"

text \<open>\<^verbatim>\<open>if (!fallbackContour) fallbackContour = contours[0];\<close>: the first one set stays.\<close>

fun fallbackContour :: "strategyRun list \<Rightarrow> contour option" where
  "fallbackContour [] = None"
| "fallbackContour (r # rs) =
     (case firstRaw r of Some c \<Rightarrow> Some c | None \<Rightarrow> fallbackContour rs)"

definition poolScore :: "candidate \<times> string \<Rightarrow> jsnum" where
  "poolScore a = score (fst a)"

text \<open>
  The choice of \<open>documentContour\<close>, with the step it pushes (the score printed in the
  step's name is left out).
\<close>

definition pickDocumentContour ::
  "(candidate \<times> string) list \<Rightarrow> contour option \<Rightarrow> contour option \<times> string list" where
  "pickDocumentContour pool fb =
     (case sortByScore poolScore pool of
        best # _ \<Rightarrow> (Some (candContour (fst best)), [''Best Strategy: '' @ snd best])
      | [] \<Rightarrow>
          (case fb of
             Some c \<Rightarrow> (Some c, [''Fallback: largest raw contour''])
           | None \<Rightarrow> (None, [])))"

text \<open>The variable \<open>documentContour\<close> of the driver after the choice.\<close>

definition documentContour :: "env \<Rightarrow> nat \<Rightarrow> nat \<Rightarrow> scanOptions \<Rightarrow> contour option" where
  "documentContour e width height options =
     (let runs = strategyRuns e width height options
      in fst (pickDocumentContour (allCandidates runs) (fallbackContour runs)))"

text \<open>The result object: \<open>success\<close>, \<open>message\<close>, and contour and corners on success.\<close>

type_synonym jspoint = "jsnum \<times> jsnum"

datatype detection =
    NoDocumentDetected
  | CouldNotFindCornerPoints
  | Detected contour "jspoint \<times> jspoint \<times> jspoint \<times> jspoint"


definition scalePoint :: "jsnum \<Rightarrow> point \<Rightarrow> jspoint" where
  "scalePoint scaleFactor p =
     (if scaleFactor \<noteq> Fin 1
      then (js_mul (Fin (xc p)) scaleFactor, js_mul (Fin (yc p)) scaleFactor)
      else (Fin (xc p), Fin (yc p)))"

definition finalCorners :: "jsnum \<Rightarrow> corners \<Rightarrow> jspoint \<times> jspoint \<times> jspoint \<times> jspoint" where
  "finalCorners scaleFactor cp =
     (scalePoint scaleFactor (topLeft cp), scalePoint scaleFactor (topRight cp),
      scalePoint scaleFactor (bottomRight cp), scalePoint scaleFactor (bottomLeft cp))"

text \<open>\<open>detectDocumentInternal\<close>: the result and the names of the steps in \<open>timings\<close>.\<close>

definition detectDocumentInternal ::
  "env \<Rightarrow> nat \<Rightarrow> nat \<Rightarrow> jsnum \<Rightarrow> scanOptions \<Rightarrow> detection \<times> string list" where
  "detectDocumentInternal e width height scaleFactor options =
     (let runs = strategyRuns e width height options;
          timings = concat (map steps runs);
          pick = pickDocumentContour (allCandidates runs) (fallbackContour runs)
      in case fst pick of
           None \<Rightarrow> (NoDocumentDetected, timings @ snd pick)
         | Some doc \<Rightarrow>
             (case findCornerPoints e doc of
                None \<Rightarrow> (CouldNotFindCornerPoints, timings @ snd pick @ [''Corner Detection''])
              | Some cp \<Rightarrow>
                  (Detected doc (finalCorners scaleFactor cp),
                   timings @ snd pick @ [''Corner Detection''])))"

text \<open>
  The sizes \<open>prepareScaleAndGrayscale\<close> computes from the original size and
  \<open>maxDimension\<close>: target width, target height and scale factor. \<open>Math.round\<close> of a
  number that is not negative is \<open>floor (x + 1/2)\<close>. The product under \<open>Math.round\<close> is
  taken exactly, where the code rounds it to a double first: the two can differ when the
  exact product lies at a half (as for 11 * (15 / 22)).
\<close>

definition js_round :: "real \<Rightarrow> nat" where
  "js_round x = nat \<lfloor>x + 1 / 2\<rfloor>"

definition prepareDimensions :: "nat \<Rightarrow> nat \<Rightarrow> nat \<Rightarrow> nat \<times> nat \<times> jsnum" where
  "prepareDimensions originalWidth originalHeight maxDimension =
     (let maxCurrentDimension = max originalWidth originalHeight
      in if maxCurrentDimension \<le> maxDimension
         then (originalWidth, originalHeight, Fin 1)
         else (let scale = real maxDimension / real maxCurrentDimension
               in (js_round (real originalWidth * scale),
                   js_round (real originalHeight * scale),
                   js_div (Fin 1) (Fin scale))))"

text \<open>
  \<open>prepareScaleAndGrayscale\<close>, as far as the size goes. The function has no test of the
  size of its own. Of the canvas calls it makes, \<open>getImageData\<close> is a parameter: it
  says for which width and height the call throws. With pre-enhancement
  (\<open>enhanceActive\<close>) the image is read at its original size when it is scaled down and at
  the target size otherwise; without pre-enhancement it is read at the target size. The
  other canvas calls and the enhancement kernels are taken to return. The result is the
  \<open>scaledDimensions\<close> and the \<open>scaleFactor\<close> that \<open>scanDocument\<close> calls the driver with.
\<close>

datatype prepared = GetImageDataThrew | Prepared nat nat jsnum

definition prepareScaleAndGrayscale ::
  "(nat \<Rightarrow> nat \<Rightarrow> bool) \<Rightarrow> nat \<Rightarrow> nat \<Rightarrow> nat \<Rightarrow> bool \<Rightarrow> prepared" where
  "prepareScaleAndGrayscale getImageDataThrows originalWidth originalHeight maxDimension
       enhanceActive =
     (case prepareDimensions originalWidth originalHeight maxDimension of
        (targetWidth, targetHeight, scaleFactor) \<Rightarrow>
          (let needsDownscale = (scaleFactor \<noteq> Fin 1);
               grabWidth = (if enhanceActive \<and> needsDownscale then originalWidth
                            else targetWidth);
               grabHeight = (if enhanceActive \<and> needsDownscale then originalHeight
                             else targetHeight)
           in if getImageDataThrows grabWidth grabHeight then GetImageDataThrew
              else Prepared targetWidth targetHeight scaleFactor))"

section \<open>Notions used in the statements\<close>

text \<open>
  The cosine that \<open>angleBetween\<close> computes before clamping, and coordinate-wise equality
  of two points.
\<close>

definition cosOf :: "point \<Rightarrow> point \<Rightarrow> point \<Rightarrow> real" where
  "cosOf p0 p1 p2 =
     ((xc p0 - xc p1) * (xc p2 - xc p1) + (yc p0 - yc p1) * (yc p2 - yc p1)) /
     (magnitude (xc p0 - xc p1) (yc p0 - yc p1) * magnitude (xc p2 - xc p1) (yc p2 - yc p1))"

definition samePlace :: "point \<Rightarrow> point \<Rightarrow> bool" where
  "samePlace p q = (xc p = xc q \<and> yc p = yc q)"



section \<open>Example inputs\<close>

text \<open>
  The axis-aligned rectangle of width \<open>w\<close> and height \<open>h\<close>; the quadrilateral
  (0,0), (10,0), (10,0), (0,0), whose second and fourth edges have length zero; and the
  parallelogram (0,0), (17,0), (25,15), (8,15), whose angles have cosine 8/17 and -8/17
  (about 61.9 and 118.1 degrees).
\<close>

definition rect :: "real \<Rightarrow> real \<Rightarrow> point list" where
  "rect w h =
     [\<lparr>xc = 0, yc = 0\<rparr>, \<lparr>xc = w, yc = 0\<rparr>, \<lparr>xc = w, yc = h\<rparr>, \<lparr>xc = 0, yc = h\<rparr>]"

definition degenerateQuad :: "point list" where
  "degenerateQuad =
     [\<lparr>xc = 0, yc = 0\<rparr>, \<lparr>xc = 10, yc = 0\<rparr>, \<lparr>xc = 10, yc = 0\<rparr>, \<lparr>xc = 0, yc = 0\<rparr>]"

definition skewQuad :: "point list" where
  "skewQuad =
     [\<lparr>xc = 0, yc = 0\<rparr>, \<lparr>xc = 17, yc = 0\<rparr>, \<lparr>xc = 25, yc = 15\<rparr>, \<lparr>xc = 8, yc = 15\<rparr>]"

text \<open>Contours with these points.\<close>

definition rectContour :: "real \<Rightarrow> real \<Rightarrow> contour" where
  "rectContour w h = \<lparr>points = rect w h, area = w * h\<rparr>"

definition degenerateContour :: contour where
  "degenerateContour = \<lparr>points = degenerateQuad, area = 0\<rparr>"

definition skewContour :: contour where
  "skewContour = \<lparr>points = skewQuad, area = 255\<rparr>"

text \<open>
  Two polygon approximations: one that returns the contour's points unchanged, and one
  that returns \<open>q1\<close> for the epsilon 0.01 and \<open>q2\<close> for every other epsilon.
\<close>

definition idApprox :: "point list \<Rightarrow> jsnum \<Rightarrow> point list option" where
  "idApprox ps e = Some ps"


text \<open>
  Options of the filter: the empty object; the empty object with \<open>minAreaRatio = 0\<close>,
  \<open>minAngle = 0\<close> and \<open>maxAspectRatio = Infinity\<close>; and the empty object with the weights
  0.9 and 0.1.
\<close>

definition noOptions :: filterOptions where
  "noOptions =
     \<lparr>minAreaRatio = None, maxAreaRatio = None, minAngle = None, maxAngle = None,
      epsilon = None, areaWeight = None, angleWeight = None, minAspectRatio = None,
      maxAspectRatio = None, epsilonValues = None\<rparr>"

definition laxOptions :: filterOptions where
  "laxOptions =
     noOptions\<lparr>minAreaRatio := Some (Fin 0), minAngle := Some (Fin 0),
       maxAspectRatio := Some PInf\<rparr>"


text \<open>
  The candidate the loop body pushes for a contour \<open>c\<close> whose approximation at \<open>e\<close> is
  \<open>rect w h\<close>, when it passes the checks.
\<close>

definition rectCandidate ::
  "filterOptions \<Rightarrow> nat \<Rightarrow> nat \<Rightarrow> contour \<Rightarrow> real \<Rightarrow> real \<Rightarrow> jsnum \<Rightarrow> candidate" where
  "rectCandidate opts W H c w h e =
     \<lparr>candContour = c, approx = rect w h, candArea = w * h, candPoints = points c,
      candEpsilon = e, angleScore = Fin 1,
      score = compositeScore opts (imageArea W H) (w * h) (Fin 1)\<rparr>"

text \<open>The scan options of a call without options.\<close>

definition defaultScanOptions :: scanOptions where
  "defaultScanOptions =
     \<lparr>contourFilter = None, scanEpsilon = None, useFallback = None,
      fallbackLowThreshold = None, fallbackHighThreshold = None,
      lowThreshold = None, highThreshold = None\<rparr>"

text \<open>
  Environments. The corner detector \<open>stubCorners\<close> takes the four points of a contour of
  four points as the corners. In \<open>quietEnv\<close> no strategy traces a contour. In \<open>threeEnv\<close>
  the Enhanced strategy traces the 10 by 5 rectangle, Canny-Fallback (low threshold 30)
  the 10 by 8 rectangle and Canny-Default the 10 by 9 rectangle; \<open>noCornersEnv\<close> is
  \<open>threeEnv\<close> with a corner detector that finds no corner points. In \<open>rawEnv\<close> only
  Canny-Default traces a contour, the parallelogram. In \<open>unsortedEnv\<close> only
  Canny-Fallback traces contours: the parallelogram first, then the rectangle that
  covers the whole 30 by 20 image.
\<close>

definition stubCorners :: "contour \<Rightarrow> corners option" where
  "stubCorners c =
     (case points c of
        [p0, p1, p2, p3] \<Rightarrow>
          Some \<lparr>topLeft = p0, topRight = p1, bottomRight = p2, bottomLeft = p3\<rparr>
      | _ \<Rightarrow> None)"

definition quietEnv :: env where
  "quietEnv =
     \<lparr>enhanced = (\<lambda>w h. Traced []), canny = (\<lambda>w h low high. []),
      approximatePolygon = idApprox, findCornerPoints = stubCorners\<rparr>"





text \<open>
  The rule of the canvas in a browser: \<open>getImageData\<close> throws when the width or the
  height it is asked for is zero.
\<close>

definition zeroSideThrows :: "nat \<Rightarrow> nat \<Rightarrow> bool" where
  "zeroSideThrows sw sh = (sw = 0 \<or> sh = 0)"

section \<open>Properties of the adaptive threshold\<close>

lemma length_adaptiveThresholdJS:
  "length (adaptiveThresholdJS input blurred width height offset invert) = width * height"
  by (simp add: adaptiveThresholdJS_def)

lemma nth_adaptiveThresholdJS:
  "i < width * height \<Longrightarrow>
   adaptiveThresholdJS input blurred width height offset invert ! i =
     (if above_px input blurred offset i \<noteq> invert then 255 else 0)"
  by (simp add: adaptiveThresholdJS_def)

text \<open>
  C1, as the spec states it, fails: the spec maps a pixel with \<open>above XOR invert\<close> to 0.
  With \<open>invert = true\<close>, the pixel 200 is strictly brighter than its blurred mean 100
  minus the offset 12, and the code writes 0 (black) there, not 255.
\<close>

theorem C1_counterexample:
  "js_gt (Fin 200) (js_sub (Fin 100) (Fin 12)) \<and>
   adaptiveThresholdJS [200] [100] 1 1 (Fin 12) True ! 0 = 0 \<and>
   adaptiveThresholdJS [200] [100] 1 1 (Fin 12) True ! 0 \<noteq> 255"
  by (simp add: adaptiveThresholdJS_def above_px_def rd_def js_gt_def js_sub_def)

text \<open>
  C1, amended: for every pixel \<open>i\<close> of the \<open>width * height\<close> output, every offset and
  every \<open>invert\<close>, with \<open>above = (E[i] > B[i] - C)\<close> the output is 255 when
  \<open>above XOR invert\<close> holds and 0 otherwise. So with \<open>invert = true\<close> a pixel strictly
  brighter than its blurred mean minus the offset becomes 0, and every other pixel 255;
  with \<open>invert = false\<close> it is the other way round.
\<close>

theorem C1_adaptive_threshold_polarity:
  assumes "i < width * height"
  shows "adaptiveThresholdJS input blurred width height offset invert ! i =
           (if above_px input blurred offset i \<noteq> invert then 255 else 0) \<and>
         adaptiveThresholdJS input blurred width height offset True ! i =
           (if above_px input blurred offset i then 0 else 255)"
  using assms by (simp add: nth_adaptiveThresholdJS)

theorem C1_adaptive_threshold_polarity_witness:
  "(0::nat) < 1 * 1 \<and>
   adaptiveThresholdJS [200] [100] 1 1 (Fin 12) True ! 0 =
     (if above_px [200] [100] (Fin 12) 0 \<noteq> True then 255 else 0) \<and>
   adaptiveThresholdJS [200] [100] 1 1 (Fin 12) True ! 0 =
     (if above_px [200] [100] (Fin 12) 0 then 0 else 255)"
  using C1_adaptive_threshold_polarity [of 0 1 1 "[200]" "[100]" "Fin 12" True]
  by simp

text \<open>
  C8: for every input, blurred image, size, offset and \<open>invert\<close>, every byte of the
  output of the adaptive threshold is 0 or 255.
\<close>

theorem C8_adaptive_threshold_binary:
  assumes "v \<in> set (adaptiveThresholdJS input blurred width height offset invert)"
  shows "v = 0 \<or> v = 255"
  using assms by (auto simp: adaptiveThresholdJS_def)

theorem C8_adaptive_threshold_binary_witness:
  "(255::byte) \<in> set (adaptiveThresholdJS [10, 200] [100, 100] 2 1 (Fin 12) True) \<and>
   ((255::byte) = 0 \<or> (255::byte) = 255)"
proof -
  have m: "(255::byte) \<in> set (adaptiveThresholdJS [10, 200] [100, 100] 2 1 (Fin 12) True)"
    by (simp add: adaptiveThresholdJS_def above_px_def rd_def js_gt_def js_sub_def upt_rec)
  from C8_adaptive_threshold_binary [OF m] m show ?thesis by simp
qed

section \<open>The clip count of CLAHE\<close>

lemma actualClip_pos:
  "0 < L \<Longrightarrow> actualClip (Fin L) tp = Fin (specClipCount L tp)"
  by (simp add: actualClip_def specClipCount_def js_gt_def)

lemma actualTilePixels_inner:
  assumes "tx < gx" "ty < gy"
    and "tx < gx - 1 \<or> gx dvd W" and "ty < gy - 1 \<or> gy dvd H"
  shows "actualTilePixels W H gx gy tx ty = tilePixels W H gx gy"
proof -
  have x: "xEnd W gx tx - xStart W gx tx = tileWidth W gx"
  proof (cases "tx = gx - 1")
    case True
    with assms have d: "gx dvd W" by auto
    from True assms(1) have "W = (tx + 1) * (W div gx)"
      using d by (metis Suc_diff_1 Suc_eq_plus1 dvd_div_mult_self mult.commute not_gr_zero not_less_zero)
    then show ?thesis using True by (simp add: xEnd_def xStart_def tileWidth_def)
  next
    case False
    then show ?thesis by (simp add: xEnd_def xStart_def)
  qed
  have y: "yEnd H gy ty - yStart H gy ty = tileHeight H gy"
  proof (cases "ty = gy - 1")
    case True
    with assms have d: "gy dvd H" by auto
    from True assms(2) have "H = (ty + 1) * (H div gy)"
      using d by (metis Suc_diff_1 Suc_eq_plus1 dvd_div_mult_self mult.commute not_gr_zero not_less_zero)
    then show ?thesis using True by (simp add: yEnd_def yStart_def tileHeight_def)
  next
    case False
    then show ?thesis by (simp add: yEnd_def yStart_def)
  qed
  show ?thesis by (simp add: actualTilePixels_def tilePixels_def x y mult.commute)
qed

text \<open>
  C3, as the spec states it, fails. For a 1200 by 1601 image on the default 8 by 8 grid
  with clip limit 2, the tiles of the last row hold 150 * 201 = 30150 pixels, for which
  the spec's clip count is 235; the code clips every tile at 234, computed from the
  nominal 150 * 200 pixels. The difference shows in the histogram: for the 3 by 1 image
  \<open>[5, 7, 7]\<close> on a 2 by 1 grid with clip limit 300, the last tile holds two pixels of
  value 7; the code clips bin 7 to 1, while the spec's clip count 2 leaves it at 2.
\<close>

theorem C3_counterexample:
  "actualClip (Fin 2) (tilePixels 1200 1601 8 8) = Fin 234 \<and>
   actualTilePixels 1200 1601 8 8 0 7 = 30150 \<and>
   specClipCount 2 30150 = 235 \<and>
   actualClip (Fin 300) (tilePixels 3 1 2 1) = Fin 1 \<and>
   actualTilePixels 3 1 2 1 1 0 = 2 \<and>
   specClipCount 300 2 = 2 \<and>
   claheTileHistogram [5, 7, 7] 3 1 2 1 (Fin 300) 1 0 ! 7 = 1 \<and>
   clipHistogram (Fin (specClipCount 300 2)) (histogram [7, 7]) ! 7 = 2"
  by (simp add: actualClip_def specClipCount_def actualTilePixels_def tilePixels_def
      tileWidth_def tileHeight_def js_gt_def yEnd_def yStart_def xEnd_def xStart_def
      claheTileHistogram_def tileValues_def histogram_def clipHistogram_def
      redistribute_def excessOf_def clipBin_def upt_rec)

text \<open>
  C3, amended: for a clip limit \<open>L > 0\<close>, one clip count is used for every tile, the
  spec's formula at the nominal tile size: \<open>max(1, floor(L * tw * th / 256))\<close> with
  \<open>tw = floor(W / gx)\<close> and \<open>th = floor(H / gy)\<close>; every tile's histogram is clipped at
  it. It is \<open>max(1, floor(L * n / 256))\<close> for the tile's actual pixel count \<open>n\<close> on
  every tile outside the last row and column, and on the last row and column when the
  grid divides the image size.
\<close>

theorem C3_clip_count_nominal:
  assumes "tx < tileGridX" and "ty < tileGridY" and "0 < L"
  shows "actualClip (Fin L) (tilePixels width height tileGridX tileGridY) =
           Fin (max 1 (of_int \<lfloor>L * real ((width div tileGridX) * (height div tileGridY)) / 256\<rfloor>)) \<and>
         claheTileHistogram input width height tileGridX tileGridY (Fin L) tx ty =
           clipHistogram
             (Fin (specClipCount L ((width div tileGridX) * (height div tileGridY))))
             (histogram (tileValues input width
                (yStart height tileGridY ty) (yEnd height tileGridY ty)
                (xStart width tileGridX tx) (xEnd width tileGridX tx))) \<and>
         ((tx < tileGridX - 1 \<or> tileGridX dvd width) \<and>
          (ty < tileGridY - 1 \<or> tileGridY dvd height) \<longrightarrow>
            actualClip (Fin L) (tilePixels width height tileGridX tileGridY) =
              Fin (specClipCount L (actualTilePixels width height tileGridX tileGridY tx ty)))"
  using assms actualTilePixels_inner [of tx tileGridX ty tileGridY width height]
  by (auto simp add: actualClip_pos claheTileHistogram_def tilePixels_def tileWidth_def
      tileHeight_def specClipCount_def)

theorem C3_clip_count_nominal_witness:
  "(0::nat) < 2 \<and> (0::nat) < 1 \<and> (0::real) < 300 \<and>
   actualClip (Fin 300) (tilePixels 3 1 2 1) = Fin 1 \<and>
   claheTileHistogram [5, 7, 7] 3 1 2 1 (Fin 300) 0 0 =
     clipHistogram (Fin 1) (histogram [5]) \<and>
   (0::nat) < 2 - 1 \<and> (1::nat) dvd 1 \<and>
   actualClip (Fin 300) (tilePixels 3 1 2 1) =
     Fin (specClipCount 300 (actualTilePixels 3 1 2 1 0 0))"
  using C3_clip_count_nominal [of 0 2 0 1 300 3 1 "[5, 7, 7]"]
  by (simp add: specClipCount_def tileValues_def yStart_def yEnd_def xStart_def xEnd_def
      tileWidth_def tileHeight_def actualTilePixels_def upt_rec)

section \<open>The order of scores and the sort\<close>





lemma mset_insertByScore: "mset (insertByScore sc a bs) = add_mset a (mset bs)"
  by (induction bs) auto

lemma mset_sortByScore: "mset (sortByScore sc xs) = mset xs"
  by (induction xs) (simp_all add: sortByScore_def mset_insertByScore)

lemma set_sortByScore: "set (sortByScore sc xs) = set xs"
  by (metis mset_sortByScore set_mset_mset)





section \<open>Angles\<close>

lemma magnitude_eq_0_iff: "magnitude vx vy = 0 \<longleftrightarrow> vx = 0 \<and> vy = 0"
  by (simp add: magnitude_def)

lemma magnitude_nonneg: "0 \<le> magnitude vx vy"
  by (simp add: magnitude_def)

lemma angleBetween_closed:
  "angleBetween p0 p1 p2 =
     (if samePlace p0 p1 \<or> samePlace p2 p1 then Fin 0
      else Fin (arccos (max (- 1) (min 1 (cosOf p0 p1 p2))) * (180 / pi)))"
  by (simp add: angleBetween_def Let_def magnitude_eq_0_iff samePlace_def cosOf_def)

lemma angleBetween_range:
  "\<exists>a. angleBetween p0 p1 p2 = Fin a \<and> 0 \<le> a \<and> a \<le> 180"
proof (cases "samePlace p0 p1 \<or> samePlace p2 p1")
  case True
  then show ?thesis by (simp add: angleBetween_closed)
next
  case False
  let ?c = "max (- 1) (min 1 (cosOf p0 p1 p2))"
  have c: "- 1 \<le> ?c" "?c \<le> 1" by simp_all
  have "0 \<le> arccos ?c" "arccos ?c \<le> pi"
    using arccos_lbound [OF c] arccos_ubound [OF c] by simp_all
  then have "0 \<le> arccos ?c * (180 / pi)" "arccos ?c * (180 / pi) \<le> 180"
    by (simp_all add: field_simps)
  with False show ?thesis by (simp add: angleBetween_closed)
qed

lemma samePlace_eq: "samePlace (p::point) q \<longleftrightarrow> p = q"
  by (cases p; cases q) (simp add: samePlace_def)

lemma angleAt_zero_edge_next:
  assumes "ps ! i = ps ! ((i + 1) mod length ps)"
  shows "angleAt ps i = Fin 0"
  using assms by (simp add: angleAt_def Let_def angleBetween_closed samePlace_eq)

lemma angleAt_zero_edge_prev:
  assumes "ps ! i = ps ! ((i + length ps - 1) mod length ps)"
  shows "angleAt ps i = Fin 0"
  using assms by (simp add: angleAt_def Let_def angleBetween_closed samePlace_eq)

lemma angleAt_range: "\<exists>a. angleAt ps i = Fin a \<and> 0 \<le> a \<and> a \<le> 180"
  by (simp add: angleAt_def Let_def angleBetween_range)

lemma hasReasonableAngles_nth:
  "hasReasonableAngles ps minA maxA \<Longrightarrow> i < length ps \<Longrightarrow>
   \<not> angleOutside minA maxA (angleAt ps i)"
  by (auto simp: hasReasonableAngles_def list_all_iff split: if_splits)

lemma hasReasonableAngles_outside:
  "i < length ps \<Longrightarrow> angleOutside minA maxA (angleAt ps i) \<Longrightarrow>
   \<not> hasReasonableAngles ps minA maxA"
  using hasReasonableAngles_nth by blast

lemma hasReasonableAngles_zero_angle:
  assumes "i < length ps" and "angleAt ps i = Fin 0" and "js_lt (Fin 0) minA"
  shows "\<not> hasReasonableAngles ps minA maxA"
proof -
  have "angleOutside minA maxA (angleAt ps i)"
    using assms by (simp add: angleOutside_def)
  moreover have "i \<in> set [0 ..< length ps]" using assms by simp
  ultimately show ?thesis
    by (auto simp: hasReasonableAngles_def list_all_iff)
qed

lemma deviation_fold:
  "\<exists>t. foldl (\<lambda>acc i. js_add acc (js_abs (js_sub (angleAt ps i) (Fin 90)))) (Fin a) js = Fin t
        \<and> a \<le> t"
proof (induction js arbitrary: a)
  case Nil
  then show ?case by simp
next
  case (Cons j js)
  obtain x where x: "angleAt ps j = Fin x" using angleAt_range by blast
  obtain t where t: "foldl (\<lambda>acc i. js_add acc (js_abs (js_sub (angleAt ps i) (Fin 90))))
      (Fin (a + \<bar>x - 90\<bar>)) js = Fin t" "a + \<bar>x - 90\<bar> \<le> t"
    using Cons.IH by blast
  then show ?case using x by (auto simp: js_sub_def)
qed

lemma totalDeviation_finite: "\<exists>t. totalDeviation ps = Fin t \<and> 0 \<le> t"
  unfolding totalDeviation_def by (rule deviation_fold)

lemma computeAngleScore_range:
  "\<exists>s. computeAngleScore ps = Fin s \<and> 0 \<le> s \<and> s \<le> 1"
proof (cases "length ps < 3")
  case True
  then show ?thesis by (simp add: computeAngleScore_def)
next
  case False
  obtain t where t: "totalDeviation ps = Fin t" using totalDeviation_finite by blast
  from False have n: "real (length ps) \<noteq> 0" by auto
  show ?thesis using False t n
    by (simp add: computeAngleScore_def Let_def js_sub_def)
qed

lemma succ_pred_mod:
  assumes "i < n"
  shows "((i + 1) mod n + n - 1) mod n = (i::nat)"
proof (cases "i + 1 = n")
  case True
  then show ?thesis using assms by simp
next
  case False
  with assms have "i + 1 < n" by simp
  then have "((i + 1) mod n + n - 1) mod n = (i + n) mod n" by simp
  with assms show ?thesis by simp
qed

section \<open>The example polygons\<close>

lemma upt4: "[0 ..< 4] = [0, 1, 2, 3]"
  by (simp add: upt_rec)

lemma contourArea_rect: "0 < w \<Longrightarrow> 0 < h \<Longrightarrow> contourArea (rect w h) = w * h"
  by (simp add: contourArea_def rect_def shoelaceTerm_def upt4)

lemma isConvex_rect: "0 < w \<Longrightarrow> 0 < h \<Longrightarrow> isConvex (rect w h)"
  by (simp add: isConvex_def rect_def crossAt_def upt4 Let_def)

lemma angleAt_rect:
  assumes "0 < w" "0 < h" "i < 4"
  shows "angleAt (rect w h) i = Fin 90"
proof -
  from assms(3) consider "i = 0" | "i = 1" | "i = 2" | "i = 3" by linarith
  then show ?thesis
    using assms(1,2)
    by cases (simp_all add: angleAt_def rect_def Let_def angleBetween_closed samePlace_def cosOf_def)
qed

lemma totalDeviation_rect: "0 < w \<Longrightarrow> 0 < h \<Longrightarrow> totalDeviation (rect w h) = Fin 0"
proof -
  assume a: "0 < w" "0 < h"
  have l: "length (rect w h) = 4" by (simp add: rect_def)
  show ?thesis
    unfolding totalDeviation_def l upt4
    using a by (simp add: angleAt_rect js_sub_def)
qed

lemma computeAngleScore_rect: "0 < w \<Longrightarrow> 0 < h \<Longrightarrow> computeAngleScore (rect w h) = Fin 1"
proof -
  assume a: "0 < w" "0 < h"
  have l: "length (rect w h) = 4" by (simp add: rect_def)
  show ?thesis using a
    by (simp add: computeAngleScore_def l totalDeviation_rect js_sub_def)
qed

lemma quadAspectRatio_rect: "0 < w \<Longrightarrow> 0 < h \<Longrightarrow> quadAspectRatio (rect w h) = Fin (w / h)"
  by (simp add: quadAspectRatio_def quadHeight_def quadWidth_def edgeLength_def rect_def Let_def magnitude_def)

lemma hasReasonableAngles_rect:
  assumes "0 < w" "0 < h"
  shows "hasReasonableAngles (rect w h) minA maxA = (\<not> js_lt (Fin 90) minA \<and> \<not> js_gt (Fin 90) maxA)"
proof -
  have l: "length (rect w h) = 4" by (simp add: rect_def)
  show ?thesis
    unfolding hasReasonableAngles_def l upt4
    using assms by (auto simp add: angleAt_rect angleOutside_def)
qed

lemma angleAt_degenerateQuad: "i < 4 \<Longrightarrow> angleAt degenerateQuad i = Fin 0"
proof -
  assume "i < 4"
  then consider "i = 0" | "i = 1" | "i = 2" | "i = 3" by linarith
  then show ?thesis
    by cases (simp_all add: angleAt_def degenerateQuad_def Let_def angleBetween_closed samePlace_def)
qed

lemma quadHeight_degenerateQuad: "quadHeight degenerateQuad = 0"
  by (simp add: quadHeight_def edgeLength_def degenerateQuad_def magnitude_def)

lemma degenerateQuad_facts:
  "length degenerateQuad = 4" "contourArea degenerateQuad = 0" "isConvex degenerateQuad"
  "hasReasonableAngles degenerateQuad (Fin 0) (Fin 120)"
  "computeAngleScore degenerateQuad = Fin 0"
proof -
  show l: "length degenerateQuad = 4" by (simp add: degenerateQuad_def)
  show "contourArea degenerateQuad = 0"
    by (simp add: contourArea_def degenerateQuad_def shoelaceTerm_def upt4)
  show "isConvex degenerateQuad"
    by (simp add: isConvex_def degenerateQuad_def crossAt_def upt4 Let_def)
  show "hasReasonableAngles degenerateQuad (Fin 0) (Fin 120)"
    unfolding hasReasonableAngles_def l upt4
    by (simp add: angleAt_degenerateQuad angleOutside_def js_gt_def)
  have "totalDeviation degenerateQuad = Fin 360"
    unfolding totalDeviation_def l upt4
    by (simp add: angleAt_degenerateQuad js_sub_def)
  then show "computeAngleScore degenerateQuad = Fin 0"
    by (simp add: computeAngleScore_def l js_sub_def)
qed

lemma sqrt_289: "sqrt 289 = 17"
  by (rule real_sqrt_unique) simp_all

lemma angleAt_skewQuad_0: "angleAt skewQuad 0 = Fin (arccos (8 / 17) * (180 / pi))"
  by (simp add: angleAt_def skewQuad_def Let_def angleBetween_closed samePlace_def cosOf_def
      magnitude_def sqrt_289)

lemma cos_70_bound: "cos (7 * pi / 18) < 8 / 17"
proof -
  have "cos (7 * pi / 18) = sin (pi / 9)"
    by (simp add: sin_cos_eq field_simps)
  also have "\<dots> \<le> pi / 9" by (rule sin_x_le_x) simp
  also have "\<dots> < 4 / 9" using pi_less_4 by simp
  also have "\<dots> < (8 / 17 :: real)" by simp
  finally show ?thesis .
qed

lemma arccos_8_17_bounds:
  "60 < arccos (8 / 17) * (180 / pi)" "arccos (8 / 17) * (180 / pi) < 70"
proof -
  have "arccos (1 / 2) < arccos (8 / 17 :: real)"
    by (rule arccos_less_arccos) simp_all
  then have lo: "pi / 3 < arccos (8 / 17)" by simp
  have "arccos (8 / 17) < arccos (cos (7 * pi / 18))"
    by (rule arccos_less_arccos) (use cos_70_bound in simp_all)
  also have "arccos (cos (7 * pi / 18)) = 7 * pi / 18"
    by (rule arccos_cos) simp_all
  finally have hi: "arccos (8 / 17) < 7 * pi / 18" .
  from lo show "60 < arccos (8 / 17) * (180 / pi)" by (simp add: field_simps)
  from hi show "arccos (8 / 17) * (180 / pi) < 70" by (simp add: field_simps)
qed

section \<open>Edges of length zero\<close>

text \<open>
  C10: when a vertex of a polygon coincides with the next one, the angle computed at both
  ends of that zero-length edge is 0 degrees, and \<open>hasReasonableAngles\<close> rejects the
  polygon for every \<open>minAngle > 0\<close>. No division of the angle computations has a zero
  divisor: \<open>angleBetween\<close> returns 0 when a magnitude is 0 and otherwise divides by the
  product of two magnitudes that are not 0, and its result is a finite angle in
  [0, 180]; \<open>computeAngleScore\<close> divides by the number of points only when there are
  at least three, and by the constant 30, and its result is a finite score in [0, 1].
\<close>

theorem C10_zero_edge_angle:
  assumes "i < length ps" and "ps ! i = ps ! ((i + 1) mod length ps)"
  shows "angleAt ps i = Fin 0 \<and> angleAt ps ((i + 1) mod length ps) = Fin 0 \<and>
         (js_lt (Fin 0) minA \<longrightarrow> \<not> hasReasonableAngles ps minA maxA) \<and>
         (\<forall>p0 p1 p2.
            (magnitude (xc p0 - xc p1) (yc p0 - yc p1) = 0 \<or>
             magnitude (xc p2 - xc p1) (yc p2 - yc p1) = 0 \<longrightarrow> angleBetween p0 p1 p2 = Fin 0) \<and>
            (\<not> (magnitude (xc p0 - xc p1) (yc p0 - yc p1) = 0 \<or>
                 magnitude (xc p2 - xc p1) (yc p2 - yc p1) = 0) \<longrightarrow>
               magnitude (xc p0 - xc p1) (yc p0 - yc p1) *
               magnitude (xc p2 - xc p1) (yc p2 - yc p1) \<noteq> 0) \<and>
            (\<exists>a. angleBetween p0 p1 p2 = Fin a \<and> 0 \<le> a \<and> a \<le> 180)) \<and>
         (\<forall>qs. (\<not> length qs < 3 \<longrightarrow> real (length qs) \<noteq> 0) \<and>
               (\<exists>s. computeAngleScore qs = Fin s \<and> 0 \<le> s \<and> s \<le> 1))"
proof -
  let ?j = "(i + 1) mod length ps"
  have a0: "angleAt ps i = Fin 0" using assms(2) by (rule angleAt_zero_edge_next)
  have "(?j + length ps - 1) mod length ps = i"
    using assms(1) by (rule succ_pred_mod)
  with assms(2) have "ps ! ?j = ps ! ((?j + length ps - 1) mod length ps)"
    by (simp only:)
  then have a1: "angleAt ps ?j = Fin 0" by (rule angleAt_zero_edge_prev)
  have r: "js_lt (Fin 0) minA \<longrightarrow> \<not> hasReasonableAngles ps minA maxA"
    using hasReasonableAngles_zero_angle [OF assms(1) a0] by blast
  have g: "\<forall>p0 p1 p2.
            (magnitude (xc p0 - xc p1) (yc p0 - yc p1) = 0 \<or>
             magnitude (xc p2 - xc p1) (yc p2 - yc p1) = 0 \<longrightarrow> angleBetween p0 p1 p2 = Fin 0) \<and>
            (\<not> (magnitude (xc p0 - xc p1) (yc p0 - yc p1) = 0 \<or>
                 magnitude (xc p2 - xc p1) (yc p2 - yc p1) = 0) \<longrightarrow>
               magnitude (xc p0 - xc p1) (yc p0 - yc p1) *
               magnitude (xc p2 - xc p1) (yc p2 - yc p1) \<noteq> 0) \<and>
            (\<exists>a. angleBetween p0 p1 p2 = Fin a \<and> 0 \<le> a \<and> a \<le> 180)"
  proof (intro allI conjI)
    fix p0 p1 p2 :: point
    show "magnitude (xc p0 - xc p1) (yc p0 - yc p1) = 0 \<or>
          magnitude (xc p2 - xc p1) (yc p2 - yc p1) = 0 \<longrightarrow> angleBetween p0 p1 p2 = Fin 0"
      by (auto simp: angleBetween_def Let_def)
    show "\<not> (magnitude (xc p0 - xc p1) (yc p0 - yc p1) = 0 \<or>
              magnitude (xc p2 - xc p1) (yc p2 - yc p1) = 0) \<longrightarrow>
          magnitude (xc p0 - xc p1) (yc p0 - yc p1) *
          magnitude (xc p2 - xc p1) (yc p2 - yc p1) \<noteq> 0"
      by simp
    show "\<exists>a. angleBetween p0 p1 p2 = Fin a \<and> 0 \<le> a \<and> a \<le> 180"
      by (rule angleBetween_range)
  qed
  have c: "\<forall>qs::point list. (\<not> length qs < 3 \<longrightarrow> real (length qs) \<noteq> 0) \<and>
               (\<exists>s. computeAngleScore qs = Fin s \<and> 0 \<le> s \<and> s \<le> 1)"
    using computeAngleScore_range by auto
  show ?thesis using a0 a1 r g c by blast
qed

theorem C10_zero_edge_angle_witness:
  "(1::nat) < length degenerateQuad \<and>
   degenerateQuad ! 1 = degenerateQuad ! ((1 + 1) mod length degenerateQuad) \<and>
   angleAt degenerateQuad 1 = Fin 0 \<and> angleAt degenerateQuad 2 = Fin 0 \<and>
   js_lt (Fin 0) (Fin 70) \<and> \<not> hasReasonableAngles degenerateQuad (Fin 70) (Fin 110)"
proof -
  have h1: "(1::nat) < length degenerateQuad" by (simp add: degenerateQuad_def)
  have h2: "degenerateQuad ! 1 = degenerateQuad ! ((1 + 1) mod length degenerateQuad)"
    by (simp add: degenerateQuad_def)
  have "(1 + 1) mod length degenerateQuad = 2" by (simp add: degenerateQuad_def)
  with C10_zero_edge_angle [OF h1 h2, of "Fin 70" "Fin 110"] h1 h2
  show ?thesis by simp
qed

section \<open>The candidates of the filter\<close>

lemma candidateAt_Some:
  assumes "candidateAt ap W H opts c e = Some cand"
  shows "ap (points c) e = Some (approx cand) \<and> length (approx cand) = 4 \<and>
         candContour cand = c \<and> candPoints cand = points c \<and> candEpsilon cand = e \<and>
         candArea cand = contourArea (approx cand) \<and>
         \<not> js_lt (Fin (candArea cand)) (js_mul (Fin (imageArea W H)) (optMinAreaRatio opts)) \<and>
         \<not> js_gt (Fin (candArea cand)) (js_mul (Fin (imageArea W H)) (optMaxAreaRatio opts)) \<and>
         isConvex (approx cand) \<and>
         hasReasonableAngles (approx cand) (optMinAngle opts) (optMaxAngle opts) \<and>
         \<not> js_lt (quadAspectRatio (approx cand)) (optMinAspectRatio opts) \<and>
         \<not> js_gt (quadAspectRatio (approx cand)) (optMaxAspectRatio opts) \<and>
         angleScore cand = computeAngleScore (approx cand) \<and>
         score cand = compositeScore opts (imageArea W H) (candArea cand) (angleScore cand)"
  using assms
  by (auto simp: candidateAt_def Let_def split: option.splits if_splits)

lemma tryEpsilons_emitted:
  "cand \<in> set (fst (tryEpsilons ap W H opts c es)) \<Longrightarrow>
   \<exists>e \<in> set es. candidateAt ap W H opts c e = Some cand"
  by (induction es) (auto split: option.splits if_splits simp: Let_def)

lemma collectCandidates_emitted:
  assumes "cand \<in> set (collectCandidates ap W H opts contours)"
  shows "\<exists>c \<in> set contours. \<exists>e \<in> set (epsilons opts).
           4 \<le> length (points c) \<and> candidateAt ap W H opts c e = Some cand"
proof -
  from assms obtain c where c: "c \<in> set contours"
      "cand \<in> set (contourCandidates ap W H opts c)"
    by (auto simp: collectCandidates_def)
  then have "4 \<le> length (points c)"
      "cand \<in> set (fst (tryEpsilons ap W H opts c (epsilons opts)))"
    by (auto simp: contourCandidates_def split: if_splits)
  with c(1) tryEpsilons_emitted show ?thesis by blast
qed

lemma firstOrNull_Some: "firstOrNull xs = Some x \<Longrightarrow> x \<in> set xs"
  by (auto simp: firstOrNull_def split: list.splits)

lemma findDocumentContour_emitted:
  "findDocumentContour ap contours W H opts = Some cand \<Longrightarrow>
   cand \<in> set (collectCandidates ap W H opts contours)"
  unfolding findDocumentContour_def
  by (drule firstOrNull_Some) (simp add: set_sortByScore)

lemma candidateAt_rect:
  assumes "0 < w" and "0 < h" and "ap (points c) e = Some (rect w h)"
    and "\<not> js_lt (Fin (w * h)) (js_mul (Fin (imageArea W H)) (optMinAreaRatio opts))"
    and "\<not> js_gt (Fin (w * h)) (js_mul (Fin (imageArea W H)) (optMaxAreaRatio opts))"
    and "\<not> js_lt (Fin 90) (optMinAngle opts)" and "\<not> js_gt (Fin 90) (optMaxAngle opts)"
    and "\<not> js_lt (Fin (w / h)) (optMinAspectRatio opts)"
    and "\<not> js_gt (Fin (w / h)) (optMaxAspectRatio opts)"
  shows "candidateAt ap W H opts c e = Some (rectCandidate opts W H c w h e)"
proof -
  have l: "length (rect w h) = 4" by (simp add: rect_def)
  show ?thesis
    using assms
    by (simp add: candidateAt_def l contourArea_rect isConvex_rect hasReasonableAngles_rect
        quadAspectRatio_rect computeAngleScore_rect rectCandidate_def Let_def)
qed



lemma defaultScanOptions_simps:
  "cfField defaultScanOptions f = None"
  "optMinAreaRatio (filterOptionsOf defaultScanOptions) = Fin (15 / 100)"
  "optMaxAreaRatio (filterOptionsOf defaultScanOptions) = Fin (98 / 100)"
  "optMinAngle (filterOptionsOf defaultScanOptions) = Fin 70"
  "optMaxAngle (filterOptionsOf defaultScanOptions) = Fin 110"
  "optAreaWeight (filterOptionsOf defaultScanOptions) = Fin (4 / 10)"
  "optAngleWeight (filterOptionsOf defaultScanOptions) = Fin (6 / 10)"
  "optMinAspectRatio (filterOptionsOf defaultScanOptions) = Fin (3 / 10)"
  "optMaxAspectRatio (filterOptionsOf defaultScanOptions) = Fin 3"
  "epsilons (filterOptionsOf defaultScanOptions) =
     [Fin (1 / 100), Fin (3 / 200), Fin (1 / 50), Fin (3 / 100), Fin (1 / 25)]"
  by (simp_all add: defaultScanOptions_def cfField_def filterOptionsOf_def elemAt_def
      optMinAreaRatio_def optMaxAreaRatio_def optMinAngle_def optMaxAngle_def optEpsilon_def
      optAreaWeight_def optAngleWeight_def optMinAspectRatio_def optMaxAspectRatio_def
      epsilons_def dflt_def)

section \<open>The aspect ratio at height zero\<close>

text \<open>
  C7, as the spec states it, fails for \<open>maxAspectRatio = Infinity\<close>. The quadrilateral
  (0,0), (10,0), (10,0), (0,0) has height 0, so \<open>quadAspectRatio\<close> returns \<open>Infinity\<close>;
  \<open>Infinity > Infinity\<close> is false, the aspect-ratio check does not reject it, and with
  \<open>minAreaRatio = 0\<close> and \<open>minAngle = 0\<close> the filter emits it as a candidate.
\<close>

theorem C7_counterexample:
  "length degenerateQuad = 4 \<and> quadHeight degenerateQuad = 0 \<and>
   quadAspectRatio degenerateQuad = PInf \<and>
   optMaxAspectRatio laxOptions = PInf \<and>
   \<not> js_lt (quadAspectRatio degenerateQuad) (optMinAspectRatio laxOptions) \<and>
   \<not> js_gt (quadAspectRatio degenerateQuad) (optMaxAspectRatio laxOptions) \<and>
   map_option approx (candidateAt idApprox 10 10 laxOptions degenerateContour (Fin 0.02)) =
     Some degenerateQuad"
  by (simp add: quadAspectRatio_def quadHeight_degenerateQuad degenerateQuad_facts
      candidateAt_def idApprox_def degenerateContour_def laxOptions_def noOptions_def
      optMaxAspectRatio_def optMinAspectRatio_def optMinAngle_def optMaxAngle_def
      optMinAreaRatio_def optMaxAreaRatio_def dflt_def js_gt_def imageArea_def Let_def)

text \<open>
  C7, amended: for every quadrilateral (four points) whose mean of the second and fourth
  edge lengths is zero and every finite \<open>maxAspectRatio\<close> (the default 3.0 among them),
  \<open>quadAspectRatio\<close> returns \<open>Infinity\<close>, which is greater than \<open>maxAspectRatio\<close>, and
  the filter emits no candidate for it.
\<close>

theorem C7_zero_height_rejected:
  assumes "length ps = 4" and "quadHeight ps = 0" and "optMaxAspectRatio opts = Fin m"
  shows "quadAspectRatio ps = PInf \<and>
         js_gt (quadAspectRatio ps) (optMaxAspectRatio opts) \<and>
         (ap (points c) e = Some ps \<longrightarrow>
            candidateAt ap imageWidth imageHeight opts c e = None)"
proof -
  have a: "quadAspectRatio ps = PInf" using assms by (simp add: quadAspectRatio_def)
  then have g: "js_gt (quadAspectRatio ps) (optMaxAspectRatio opts)"
    using assms(3) by (simp add: js_gt_def)
  from a g show ?thesis by (auto simp: candidateAt_def Let_def)
qed

theorem C7_zero_height_rejected_witness:
  "length degenerateQuad = 4 \<and> quadHeight degenerateQuad = 0 \<and>
   optMaxAspectRatio noOptions = Fin 3 \<and>
   quadAspectRatio degenerateQuad = PInf \<and>
   js_gt (quadAspectRatio degenerateQuad) (optMaxAspectRatio noOptions) \<and>
   idApprox (points degenerateContour) (Fin 0.02) = Some degenerateQuad \<and>
   candidateAt idApprox 10 10 noOptions degenerateContour (Fin 0.02) = None"
proof -
  have m: "optMaxAspectRatio noOptions = Fin 3"
    by (simp add: optMaxAspectRatio_def noOptions_def dflt_def)
  have i: "idApprox (points degenerateContour) (Fin 0.02) = Some degenerateQuad"
    by (simp add: idApprox_def degenerateContour_def)
  from C7_zero_height_rejected [OF degenerateQuad_facts(1) quadHeight_degenerateQuad m,
      of idApprox degenerateContour "Fin 0.02" 10 10] m i
  show ?thesis by (simp add: degenerateQuad_facts quadHeight_degenerateQuad js_gt_def)
qed

section \<open>The early exit of the epsilon loop\<close>















section \<open>The angle bounds the driver gives the filter\<close>

lemma filterOptionsOf_angles:
  assumes "cfField options angleRange = None"
  shows "optMinAngle (filterOptionsOf options) = Fin 70"
    and "optMaxAngle (filterOptionsOf options) = Fin 110"
  using assms
  by (simp_all add: filterOptionsOf_def optMinAngle_def optMaxAngle_def dflt_def elemAt_def)

lemma pool_member:
  assumes "(cand, name) \<in> set (allCandidates (strategyRuns e W H options))"
  shows "\<exists>cs. cand \<in> set (collectCandidates (approximatePolygon e) W H (filterOptionsOf options) cs)"
proof -
  have f: "(cand, name) \<in> set (filteredAs e W H fo nm cs) \<Longrightarrow>
      cand \<in> set (collectCandidates (approximatePolygon e) W H fo cs)" for fo nm cs
    using findDocumentContour_emitted [of "approximatePolygon e" cs W H fo cand]
    by (auto simp: filteredAs_def split: option.splits)
  from assms consider
      "(cand, name) \<in> set (pooled (strategyEnhanced e W H (filterOptionsOf options)))"
    | "(cand, name) \<in> set (pooled (strategyCannyFallback e W H (filterOptionsOf options) options))"
    | "(cand, name) \<in> set (pooled (strategyCannyDefault e W H (filterOptionsOf options) options))"
    by (auto simp: allCandidates_def strategyRuns_def Let_def split: if_splits)
  then show ?thesis
  proof cases
    case 1
    then show ?thesis
      by (auto simp: strategyEnhanced_def split: enhancedOutcome.splits if_splits dest!: f)
  next
    case 2
    then show ?thesis
      by (auto simp: strategyCannyFallback_def strategyCanny_def Let_def split: if_splits dest!: f)
  next
    case 3
    then show ?thesis
      by (auto simp: strategyCannyDefault_def strategyCanny_def Let_def split: if_splits dest!: f)
  qed
qed

lemma candidateAt_default_rect:
  "candidateAt idApprox 10 10 (filterOptionsOf defaultScanOptions) (rectContour 10 9) (Fin (1 / 100)) =
     Some (rectCandidate (filterOptionsOf defaultScanOptions) 10 10 (rectContour 10 9) 10 9
             (Fin (1 / 100)))"
  by (rule candidateAt_rect)
     (simp_all add: idApprox_def rectContour_def defaultScanOptions_simps imageArea_def js_gt_def)

lemma score_default_rect:
  "score (rectCandidate (filterOptionsOf defaultScanOptions) 10 10 c 10 9 e) = Fin (24 / 25)"
  by (simp add: rectCandidate_def compositeScore_def defaultScanOptions_simps imageArea_def)

lemma collect_default_rect:
  "collectCandidates idApprox 10 10 (filterOptionsOf defaultScanOptions) [rectContour 10 9] =
     [rectCandidate (filterOptionsOf defaultScanOptions) 10 10 (rectContour 10 9) 10 9
        (Fin (1 / 100))]"
proof -
  have l: "length (points (rectContour 10 9)) = 4" by (simp add: rect_def rectContour_def)
  show ?thesis
    by (simp add: collectCandidates_def contourCandidates_def l defaultScanOptions_simps
        candidateAt_default_rect score_default_rect js_gt_def)
qed

text \<open>
  C4: when the caller does not configure \<open>contourFilter.angleRange\<close>, the driver gives the
  filter the bounds 70 and 110. With them, every candidate the filter emits, and so
  every candidate a strategy adds to the pool, has its four interior angles in
  [70, 110], and a quadrilateral with an interior angle strictly between 60 and 70 or
  strictly between 110 and 120 yields no candidate. (The bounds 60 and 120 in the
  parameter list of \<open>findDocumentContour\<close> apply only to a direct call that leaves
  \<open>minAngle\<close> and \<open>maxAngle\<close> out; the driver always passes both.)
\<close>

theorem C4_default_angle_bounds:
  assumes "cfField options angleRange = None"
  shows "optMinAngle (filterOptionsOf options) = Fin 70 \<and>
         optMaxAngle (filterOptionsOf options) = Fin 110 \<and>
         (\<forall>cand. cand \<in> set (collectCandidates ap W H (filterOptionsOf options) contours) \<longrightarrow>
            length (approx cand) = 4 \<and>
            (\<forall>i < 4. \<exists>a. angleAt (approx cand) i = Fin a \<and> 70 \<le> a \<and> a \<le> 110)) \<and>
         (\<forall>e cand name. (cand, name) \<in> set (allCandidates (strategyRuns e W H options)) \<longrightarrow>
            (\<forall>i < 4. \<exists>a. angleAt (approx cand) i = Fin a \<and> 70 \<le> a \<and> a \<le> 110)) \<and>
         (\<forall>q i a c e.
            length q = 4 \<and> i < 4 \<and> angleAt q i = Fin a \<and>
            ((60 < a \<and> a < 70) \<or> (110 < a \<and> a < 120)) \<and> ap (points c) e = Some q \<longrightarrow>
              candidateAt ap W H (filterOptionsOf options) c e = None)"
proof -
  let ?fo = "filterOptionsOf options"
  note b = filterOptionsOf_angles [OF assms]
  have acc: "length (approx cand) = 4 \<and>
      (\<forall>i < 4. \<exists>a. angleAt (approx cand) i = Fin a \<and> 70 \<le> a \<and> a \<le> 110)"
    if "cand \<in> set (collectCandidates ap' W H ?fo cs)" for cand ap' cs
  proof -
    from collectCandidates_emitted [OF that] obtain c e
      where "candidateAt ap' W H ?fo c e = Some cand" by blast
    from candidateAt_Some [OF this]
    have l: "length (approx cand) = 4"
      and h: "hasReasonableAngles (approx cand) (Fin 70) (Fin 110)"
      by (simp_all add: b)
    have "\<exists>a. angleAt (approx cand) i = Fin a \<and> 70 \<le> a \<and> a \<le> 110" if "i < 4" for i
    proof -
      obtain a where a: "angleAt (approx cand) i = Fin a" using angleAt_range by blast
      from hasReasonableAngles_nth [OF h, of i] that l a
      show ?thesis by (simp add: angleOutside_def js_gt_def)
    qed
    with l show ?thesis by blast
  qed
  have pool: "\<forall>i < 4. \<exists>a. angleAt (approx cand) i = Fin a \<and> 70 \<le> a \<and> a \<le> 110"
    if "(cand, name) \<in> set (allCandidates (strategyRuns e W H options))" for e cand name
    using pool_member [OF that] acc by blast
  have rej: "candidateAt ap W H ?fo c e = None"
    if "length q = 4" "i < 4" "angleAt q i = Fin a"
      "(60 < a \<and> a < 70) \<or> (110 < a \<and> a < 120)" "ap (points c) e = Some q"
    for q i a c e
  proof -
    have "angleOutside (Fin 70) (Fin 110) (angleAt q i)"
      using that(3,4) by (auto simp: angleOutside_def js_gt_def)
    with that(1,2) have "\<not> hasReasonableAngles q (Fin 70) (Fin 110)"
      by (intro hasReasonableAngles_outside [of i]) simp_all
    with that(5) show ?thesis by (simp add: candidateAt_def Let_def b)
  qed
  from b acc pool rej show ?thesis by blast
qed

theorem C4_default_angle_bounds_witness:
  "cfField defaultScanOptions angleRange = None \<and>
   optMinAngle (filterOptionsOf defaultScanOptions) = Fin 70 \<and>
   optMaxAngle (filterOptionsOf defaultScanOptions) = Fin 110 \<and>
   rectCandidate (filterOptionsOf defaultScanOptions) 10 10 (rectContour 10 9) 10 9 (Fin (1 / 100))
     \<in> set (collectCandidates idApprox 10 10 (filterOptionsOf defaultScanOptions)
              [rectContour 10 9]) \<and>
   angleAt (approx (rectCandidate (filterOptionsOf defaultScanOptions) 10 10 (rectContour 10 9)
      10 9 (Fin (1 / 100)))) 0 = Fin 90 \<and>
   length skewQuad = 4 \<and> (0::nat) < 4 \<and>
   angleAt skewQuad 0 = Fin (arccos (8 / 17) * (180 / pi)) \<and>
   60 < arccos (8 / 17) * (180 / pi) \<and> arccos (8 / 17) * (180 / pi) < 70 \<and>
   idApprox (points skewContour) (Fin (1 / 100)) = Some skewQuad \<and>
   candidateAt idApprox 30 20 (filterOptionsOf defaultScanOptions) skewContour (Fin (1 / 100)) = None"
proof -
  have h: "cfField defaultScanOptions angleRange = None" by (simp add: defaultScanOptions_simps)
  have m: "rectCandidate (filterOptionsOf defaultScanOptions) 10 10 (rectContour 10 9) 10 9
      (Fin (1 / 100))
     \<in> set (collectCandidates idApprox 10 10 (filterOptionsOf defaultScanOptions)
              [rectContour 10 9])"
    by (simp add: collect_default_rect)
  have r: "angleAt (approx (rectCandidate (filterOptionsOf defaultScanOptions) 10 10
      (rectContour 10 9) 10 9 (Fin (1 / 100)))) 0 = Fin 90"
    by (simp add: rectCandidate_def angleAt_rect)
  have l: "length skewQuad = 4" by (simp add: skewQuad_def)
  have i: "idApprox (points skewContour) (Fin (1 / 100)) = Some skewQuad"
    by (simp add: idApprox_def skewContour_def)
  from C4_default_angle_bounds [OF h, of idApprox 30 20]
  have "\<forall>q i a c e.
      length q = 4 \<and> i < 4 \<and> angleAt q i = Fin a \<and>
      ((60 < a \<and> a < 70) \<or> (110 < a \<and> a < 120)) \<and> idApprox (points c) e = Some q \<longrightarrow>
        candidateAt idApprox 30 20 (filterOptionsOf defaultScanOptions) c e = None"
    by blast
  then have "length skewQuad = 4 \<and> (0::nat) < 4 \<and>
      angleAt skewQuad 0 = Fin (arccos (8 / 17) * (180 / pi)) \<and>
      ((60 < arccos (8 / 17) * (180 / pi) \<and> arccos (8 / 17) * (180 / pi) < 70) \<or>
       (110 < arccos (8 / 17) * (180 / pi) \<and> arccos (8 / 17) * (180 / pi) < 120)) \<and>
      idApprox (points skewContour) (Fin (1 / 100)) = Some skewQuad \<longrightarrow>
        candidateAt idApprox 30 20 (filterOptionsOf defaultScanOptions) skewContour
          (Fin (1 / 100)) = None"
    by blast
  then have "candidateAt idApprox 30 20 (filterOptionsOf defaultScanOptions) skewContour
      (Fin (1 / 100)) = None"
    using l angleAt_skewQuad_0 arccos_8_17_bounds i by simp
  with C4_default_angle_bounds [OF h, of idApprox 10 10 "[rectContour 10 9]"]
    h m r l i angleAt_skewQuad_0 arccos_8_17_bounds
  show ?thesis by simp
qed

section \<open>The choice of the driver\<close>



lemma pick_empty: "fst (pickDocumentContour [] fb) = fb"
  by (simp add: pickDocumentContour_def sortByScore_def split: option.splits)


lemma quietEnv_runs:
  "strategyRuns quietEnv w h defaultScanOptions =
     [\<lparr>pooled = [], firstRaw = None,
       steps = [''CLAHE + Adaptive Threshold'', ''Find Contours (Enhanced)'']\<rparr>,
      \<lparr>pooled = [], firstRaw = None, steps = [''Find Contours (Canny Fallback)'']\<rparr>,
      \<lparr>pooled = [], firstRaw = None, steps = [''Find Contours (Default Canny)'']\<rparr>]"
  by (simp add: strategyRuns_def Let_def strategyEnhanced_def strategyCannyFallback_def
      strategyCannyDefault_def strategyCanny_def cannyFallbackContours_def
      cannyDefaultContours_def quietEnv_def useFallbackOf_def defaultScanOptions_def dflt_def)






lemma useFallbackOf_default: "useFallbackOf defaultScanOptions"
  by (simp add: useFallbackOf_def defaultScanOptions_def dflt_def)

























section \<open>The driver and the image size\<close>

lemma steps_strategyEnhanced:
  "steps (strategyEnhanced e w h fo) \<noteq> [] \<and>
   hd (steps (strategyEnhanced e w h fo)) \<in>
     {''CLAHE + Adaptive Threshold'', ''Enhanced Pipeline (failed)''}"
  by (simp add: strategyEnhanced_def split: enhancedOutcome.splits)

lemma steps_strategyCanny: "steps (strategyCanny e w h fo name step cs) = [step]"
  by (simp add: strategyCanny_def)

lemma timings_detect:
  "snd (detectDocumentInternal e width height sf options) =
     steps (strategyEnhanced e width height (filterOptionsOf options)) @
     (if useFallbackOf options
      then [''Find Contours (Canny Fallback)'', ''Find Contours (Default Canny)''] else []) @
     snd (pickDocumentContour (allCandidates (strategyRuns e width height options))
            (fallbackContour (strategyRuns e width height options))) @
     (if documentContour e width height options = None then [] else [''Corner Detection''])"
proof -
  have t: "concat (map steps (strategyRuns e width height options)) =
      steps (strategyEnhanced e width height (filterOptionsOf options)) @
      (if useFallbackOf options
       then [''Find Contours (Canny Fallback)'', ''Find Contours (Default Canny)''] else [])"
    by (simp add: strategyRuns_def Let_def strategyCannyFallback_def strategyCannyDefault_def
        steps_strategyCanny)
  show ?thesis
    unfolding detectDocumentInternal_def Let_def documentContour_def t
    by (simp split: option.splits)
qed

lemma quietEnv_detect:
  "detectDocumentInternal quietEnv w h sf defaultScanOptions =
     (NoDocumentDetected,
      [''CLAHE + Adaptive Threshold'', ''Find Contours (Enhanced)'',
       ''Find Contours (Canny Fallback)'', ''Find Contours (Default Canny)''])"
  by (simp add: detectDocumentInternal_def quietEnv_runs allCandidates_def
      pickDocumentContour_def sortByScore_def)

text \<open>
  C2, as the spec states it, fails: the driver has no test of the size, and a size with
  a zero side reaches it. A 10000 by 1 image with \<open>maxDimension = 2000\<close> (the default of
  \<open>scanDocument\<close>) and pre-enhancement on (the default) is read from the canvas at its
  original size, where \<open>getImageData\<close> does not throw, and scaled to 2000 by 0. Called
  with width 2000 and height 0, the driver runs the Enhanced strategy and both Canny
  strategies, as its \<open>timings\<close> show, before it returns \<open>No document detected\<close>: the image
  is not rejected before the strategies run.
\<close>

theorem C2_counterexample:
  "prepareDimensions 10000 1 2000 = (2000, 0, Fin 5) \<and>
   prepareScaleAndGrayscale zeroSideThrows 10000 1 2000 True = Prepared 2000 0 (Fin 5) \<and>
   detectDocumentInternal quietEnv 2000 0 (Fin 5) defaultScanOptions =
     (NoDocumentDetected,
      [''CLAHE + Adaptive Threshold'', ''Find Contours (Enhanced)'',
       ''Find Contours (Canny Fallback)'', ''Find Contours (Default Canny)''])"
proof -
  have d: "prepareDimensions 10000 1 2000 = (2000, 0, Fin 5)"
    by (simp add: prepareDimensions_def js_round_def Let_def)
  have p: "prepareScaleAndGrayscale zeroSideThrows 10000 1 2000 True = Prepared 2000 0 (Fin 5)"
    unfolding prepareScaleAndGrayscale_def d by (simp add: zeroSideThrows_def)
  from d p show ?thesis by (simp add: quietEnv_detect)
qed

text \<open>
  C2, amended: the driver does not reject a size. For every width and height it is
  called with, a width or height of zero included, the steps it records begin with
  those of the Enhanced strategy (its preprocessing, or the failure of it), followed,
  exactly when \<open>useFallback\<close> is on, by the tracing steps of Canny-Fallback and
  Canny-Default.
\<close>

theorem C2_no_dimension_check:
  "snd (detectDocumentInternal e width height sf options) =
     steps (strategyEnhanced e width height (filterOptionsOf options)) @
     (if useFallbackOf options
      then [''Find Contours (Canny Fallback)'', ''Find Contours (Default Canny)''] else []) @
     snd (pickDocumentContour (allCandidates (strategyRuns e width height options))
            (fallbackContour (strategyRuns e width height options))) @
     (if documentContour e width height options = None then [] else [''Corner Detection'']) \<and>
   steps (strategyEnhanced e width height (filterOptionsOf options)) \<noteq> [] \<and>
   hd (steps (strategyEnhanced e width height (filterOptionsOf options))) \<in>
     {''CLAHE + Adaptive Threshold'', ''Enhanced Pipeline (failed)''}"
  using timings_detect [of e width height sf options]
    steps_strategyEnhanced [of e width height "filterOptionsOf options"]
  by blast

theorem C2_no_dimension_check_witness:
  "snd (detectDocumentInternal quietEnv 2000 0 (Fin 5) defaultScanOptions) =
     [''CLAHE + Adaptive Threshold'', ''Find Contours (Enhanced)'',
      ''Find Contours (Canny Fallback)'', ''Find Contours (Default Canny)''] \<and>
   steps (strategyEnhanced quietEnv 2000 0 (filterOptionsOf defaultScanOptions)) =
     [''CLAHE + Adaptive Threshold'', ''Find Contours (Enhanced)''] \<and>
   useFallbackOf defaultScanOptions"
proof -
  have s: "steps (strategyEnhanced quietEnv 2000 0 (filterOptionsOf defaultScanOptions)) =
      [''CLAHE + Adaptive Threshold'', ''Find Contours (Enhanced)'']"
    by (simp add: strategyEnhanced_def quietEnv_def)
  have p: "allCandidates (strategyRuns quietEnv 2000 0 defaultScanOptions) = []"
      "fallbackContour (strategyRuns quietEnv 2000 0 defaultScanOptions) = None"
    by (simp_all add: quietEnv_runs allCandidates_def)
  have d: "documentContour quietEnv 2000 0 defaultScanOptions = None"
    by (simp add: documentContour_def p pick_empty)
  from C2_no_dimension_check [of quietEnv 2000 0 "Fin 5" defaultScanOptions] s
    useFallbackOf_default p d
  show ?thesis by (simp add: pickDocumentContour_def sortByScore_def)
qed

end
